theory Spec2Isabelle
  imports Complex_Main "HOL-Library.Multiset" "HOL-Library.Log_Nat" "HOL-Library.AList"
    "HOL-Library.Product_Lexorder"
begin

section \<open>Python text\<close>

text \<open>
  A Python \<open>str\<close> is a sequence of code points. The model uses \<^typ>\<open>string\<close>: a
  \<^typ>\<open>char\<close> stands for a code point below 256 (ASCII and Latin-1, which holds every
  accented letter of the keywords and labels of the application). \<open>ord\<close> is Python's.
\<close>

definition ord :: "char \<Rightarrow> nat" where
  "ord c = of_char c"

definition chr :: "nat \<Rightarrow> char" where
  "chr n = char_of n"

text \<open>Accented letters used by the source's literals.\<close>

definition e_acute :: char where "e_acute = chr 233"
definition e_grave :: char where "e_grave = chr 232"
definition E_acute :: char where "E_acute = chr 201"
definition A_grave :: char where "A_grave = chr 192"

text \<open>\<open>str.isspace\<close> on one code point below 256.\<close>

definition isspace :: "char \<Rightarrow> bool" where
  "isspace c = (let n = ord c in
     (9 \<le> n \<and> n \<le> 13) \<or> (28 \<le> n \<and> n \<le> 32) \<or> n = 133 \<or> n = 160)"

definition isdigit :: "char \<Rightarrow> bool" where
  "isdigit c = (let n = ord c in 48 \<le> n \<and> n \<le> 57)"

definition digit_val :: "char \<Rightarrow> int" where
  "digit_val c = int (ord c) - 48"

definition strip :: "string \<Rightarrow> string" where
  "strip s = rev (dropWhile isspace (rev (dropWhile isspace s)))"

text \<open>\<open>str.lower\<close>: A-Z, and the Latin-1 capitals (all of 192..222 but the sign 215).\<close>

definition lower_char :: "char \<Rightarrow> char" where
  "lower_char c = (let n = ord c in
     if (65 \<le> n \<and> n \<le> 90) \<or> (192 \<le> n \<and> n \<le> 222 \<and> n \<noteq> 215) then chr (n + 32) else c)"

definition lower :: "string \<Rightarrow> string" where
  "lower s = map lower_char s"

text \<open>
  \<open>str.upper\<close>: a-z and the Latin-1 small letters 224..254 (but the sign 247) go to their
  capitals; the sharp s (223) becomes \<open>SS\<close>. The capitals of 181 and 255 lie above 255
  and are not letters of A-Z: the model keeps the code point.
\<close>

definition upper_char :: "char \<Rightarrow> string" where
  "upper_char c = (let n = ord c in
     if (97 \<le> n \<and> n \<le> 122) \<or> (224 \<le> n \<and> n \<le> 254 \<and> n \<noteq> 247) then [chr (n - 32)]
     else if n = 223 then ''SS'' else [c])"

definition upper :: "string \<Rightarrow> string" where
  "upper s = concat (map upper_char s)"

text \<open>\<open>needle in hay\<close> on strings.\<close>

fun starts_with :: "string \<Rightarrow> string \<Rightarrow> bool" where
  "starts_with [] s = True"
| "starts_with (p # ps) [] = False"
| "starts_with (p # ps) (c # cs) = (p = c \<and> starts_with ps cs)"

fun contains :: "string \<Rightarrow> string \<Rightarrow> bool" where
  "contains needle [] = (needle = [])"
| "contains needle (c # cs) = (starts_with needle (c # cs) \<or> contains needle cs)"

text \<open>\<open>sep.join(parts)\<close>.\<close>

fun join :: "string \<Rightarrow> string list \<Rightarrow> string" where
  "join sep [] = []"
| "join sep [x] = x"
| "join sep (x # y # ys) = x @ sep @ join sep (y # ys)"

section \<open>Criticality\<close>

text \<open>The three level names as the source writes them (with E acute, code point 201).\<close>

definition FAIBLE :: string where "FAIBLE = ''FAIBLE''"
definition MODEREE :: string where "MODEREE = ''MOD'' @ [E_acute] @ ''R'' @ [E_acute] @ ''E''"
definition ELEVEE :: string where "ELEVEE = [E_acute] @ ''LEV'' @ [E_acute] @ ''E''"

text \<open>validators.py, \<open>get_criticality_level\<close>.\<close>

definition get_criticality_level :: "int \<Rightarrow> string" where
  "get_criticality_level criticality =
     (if criticality \<le> 60 then FAIBLE
      else if criticality \<le> 120 then MODEREE
      else ELEVEE)"

text \<open>models.py, \<open>FailureMode\<close>: the fields the exporter and the properties read.\<close>

record pydate =
  year :: nat
  month :: nat
  day :: nat

record pydatetime = pydate +
  hour :: nat
  minute :: nat
  second :: nat

record FailureMode =
  component :: string
  failure_mode :: string
  potential_cause :: string
  effect :: string
  gravity :: int
  occurrence :: int
  detection :: int
  preventive_actions :: "string option"
  responsible :: "string option"
  deadline :: "pydate option"

definition criticality :: "FailureMode \<Rightarrow> int" where
  "criticality f = gravity f * occurrence f * detection f"

definition criticality_level :: "FailureMode \<Rightarrow> string" where
  "criticality_level f =
     (let crit = criticality f in
      if crit \<le> 60 then FAIBLE
      else if crit \<le> 120 then MODEREE
      else ELEVEE)"

section \<open>Python numbers\<close>

text \<open>
  The messages of the validators (validators.py). The source formats them as text; the
  model keeps what each one is about. \<open>ErrorText\<close> is \<open>str(e)\<close> of a caught
  \<open>ValidationError\<close>: the text of its list of messages.
\<close>

datatype vmessage =
    NotANumber string string
  | ScoreOutOfLimits string int
  | InvalidReference string
  | ReferenceTooLong nat
  | ReferenceTooShort nat
  | NoSheetInWorkbook
  | ErrorText "vmessage list"

text \<open>
  Exceptions that can leave the modelled functions. \<open>ValueError\<close> and \<open>TypeError\<close> are
  what the conversions raise and the source catches; \<open>OverflowError\<close> is raised by
  \<open>int\<close> on an infinite float and by \<open>float\<close> on an integer that is too large;
  \<open>UnboundLocalError\<close> is the read of a local name that no executed statement bound;
  \<open>ValidationError\<close> is Django's, with its messages.
\<close>

datatype exn = ValueError | TypeError | OverflowError | UnboundLocalError
  | ValidationError "vmessage list"

text \<open>
  A Python \<open>float\<close> is an IEEE double: a finite value (a rational, here kept exactly), an
  infinity or a NaN.
\<close>

datatype pyfloat = Finite rat | PosInf | NegInf | NaN

definition pow2 :: "int \<Rightarrow> rat" where
  "pow2 p = (if 0 \<le> p then 2 ^ nat p else 1 / 2 ^ nat (- p))"

definition pow10 :: "int \<Rightarrow> rat" where
  "pow10 p = (if 0 \<le> p then 10 ^ nat p else 1 / 10 ^ nat (- p))"

text \<open>The exponent e with \<open>2^e \<le> a < 2^(e+1)\<close>, for a positive rational a.\<close>

definition floorlog2 :: "rat \<Rightarrow> int" where
  "floorlog2 a = (let (n, d) = quotient_of a; k = bitlen n - bitlen d
                  in if pow2 k \<le> a then k else k - 1)"

definition round_half_even :: "rat \<Rightarrow> int" where
  "round_half_even r = (let f = \<lfloor>r\<rfloor>; d = r - of_int f
     in if d < 1 / 2 then f else if 1 / 2 < d then f + 1 else if even f then f else f + 1)"

text \<open>
  Rounding a rational to the nearest double (ties to even): 53 bits of mantissa, exponents
  down to -1074, and overflow to an infinity from \<open>2^1024\<close> on. This is what \<open>float\<close>
  does to the value of a decimal text and to an integer.
\<close>

definition to_double :: "rat \<Rightarrow> pyfloat" where
  "to_double q =
     (if q = 0 then Finite 0
      else let a = \<bar>q\<bar>; e = floorlog2 a; sh = max (e - 52) (- 1074);
               m = round_half_even (a / pow2 sh); v = of_int m * pow2 sh
           in if pow2 1024 \<le> v then (if 0 < q then PosInf else NegInf)
              else Finite (if 0 < q then v else - v))"

text \<open>
  \<open>float(text)\<close>. The text is stripped of the white space \<open>float\<close> knows (tab to
  carriage return, space, and the two Latin-1 spaces 133 and 160); an underscore must
  stand between two digits; then an optional sign, and \<open>inf\<close>, \<open>infinity\<close>, \<open>nan\<close> in
  any case, or digits with an optional point and an optional exponent. \<open>None\<close> is
  \<open>ValueError\<close>.
\<close>

definition float_space :: "char \<Rightarrow> bool" where
  "float_space c = (let n = ord c in (9 \<le> n \<and> n \<le> 13) \<or> n = 32 \<or> n = 133 \<or> n = 160)"

definition float_strip :: "string \<Rightarrow> string" where
  "float_strip s = rev (dropWhile float_space (rev (dropWhile float_space s)))"

fun underscores_ok :: "char \<Rightarrow> string \<Rightarrow> bool" where
  "underscores_ok prev [] = (prev \<noteq> CHR ''_'')"
| "underscores_ok prev (c # cs) =
     ((if c = CHR ''_'' then isdigit prev else (prev = CHR ''_'' \<longrightarrow> isdigit c))
      \<and> underscores_ok c cs)"

definition digits_val :: "string \<Rightarrow> int" where
  "digits_val ds = foldl (\<lambda>a c. 10 * a + digit_val c) 0 ds"

definition split_sign :: "string \<Rightarrow> bool \<times> string" where
  "split_sign s = (case s of
       c # cs \<Rightarrow> if c = CHR ''-'' then (True, cs) else if c = CHR ''+'' then (False, cs) else (False, s)
     | [] \<Rightarrow> (False, s))"

text \<open>The exponent part: \<open>e\<close> or \<open>E\<close>, an optional sign, at least one digit; else nothing is read.\<close>

definition parse_exponent :: "string \<Rightarrow> int \<times> string" where
  "parse_exponent s = (case s of
       c # cs \<Rightarrow>
         if c = CHR ''e'' \<or> c = CHR ''E'' then
           (let (neg, r) = split_sign cs; ds = takeWhile isdigit r
            in if ds = [] then (0, s)
               else ((if neg then - digits_val ds else digits_val ds),
                     dropWhile isdigit r))
         else (0, s)
     | [] \<Rightarrow> (0, s))"

definition parse_decimal :: "string \<Rightarrow> rat option" where
  "parse_decimal s =
     (let ip = takeWhile isdigit s; r1 = dropWhile isdigit s;
          (fp, r2) = (case r1 of
                        c # cs \<Rightarrow> if c = CHR ''.'' then (takeWhile isdigit cs, dropWhile isdigit cs)
                                  else ([], r1)
                      | [] \<Rightarrow> ([], r1))
      in if ip = [] \<and> fp = [] then None
         else let (ex, rest) = parse_exponent r2
              in if rest \<noteq> [] then None
                 else Some (of_int (digits_val (ip @ fp)) * pow10 (ex - int (length fp))))"

definition float_of_string :: "string \<Rightarrow> pyfloat option" where
  "float_of_string s =
     (let t = float_strip s in
      if \<not> underscores_ok (CHR ''0'') (CHR ''0'' # t) \<or> (t \<noteq> [] \<and> hd t = CHR ''_'') then None
      else let u = filter (\<lambda>c. c \<noteq> CHR ''_'') t; (neg, body) = split_sign u; l = lower body
           in if l = ''inf'' \<or> l = ''infinity'' then Some (if neg then NegInf else PosInf)
              else if l = ''nan'' then Some NaN
              else (case parse_decimal body of
                      None \<Rightarrow> None
                    | Some q \<Rightarrow> Some (to_double (if neg then - q else q))))"

text \<open>\<open>int(x)\<close> on a float truncates toward zero.\<close>

definition trunc :: "rat \<Rightarrow> int" where
  "trunc q = (if 0 \<le> q then \<lfloor>q\<rfloor> else \<lceil>q\<rceil>)"

definition int_of_float :: "pyfloat \<Rightarrow> exn + int" where
  "int_of_float x = (case x of
       Finite q \<Rightarrow> Inr (trunc q)
     | PosInf \<Rightarrow> Inl OverflowError
     | NegInf \<Rightarrow> Inl OverflowError
     | NaN \<Rightarrow> Inl ValueError)"

text \<open>\<open>str(n)\<close> of an integer: its decimal digits, with a minus sign when negative.\<close>

fun nat_digits :: "nat \<Rightarrow> string" where
  "nat_digits n = (if n < 10 then [chr (48 + n)] else nat_digits (n div 10) @ [chr (48 + n mod 10)])"

declare nat_digits.simps [simp del]

definition str_of_int :: "int \<Rightarrow> string" where
  "str_of_int n = (if n < 0 then CHR ''-'' # nat_digits (nat (- n)) else nat_digits (nat n))"

section \<open>Cells\<close>

text \<open>
  The value of a worksheet cell as openpyxl hands it over (\<open>values_only=True\<close>), which is
  also what the validators receive as \<open>Any\<close>: \<open>None\<close>, a bool, an int, a float, a text, a
  date or a datetime. A float is held as its \<open>repr\<close>, the text \<open>str\<close> gives and
  \<open>float\<close> reads back to the same float; the source reads a cell only through \<open>str\<close>,
  its truth value and \<open>isinstance\<close>.
\<close>

datatype cell = CNone | CBool bool | CInt int | CFloat string | CStr string
  | CDate pydate | CDateTime pydate nat nat nat

definition zpad :: "nat \<Rightarrow> nat \<Rightarrow> string" where
  "zpad w n = (let ds = nat_digits n in replicate (w - length ds) (CHR ''0'') @ ds)"

text \<open>\<open>d.isoformat()\<close>, which is \<open>str(d)\<close> of a date.\<close>

definition iso_date :: "pydate \<Rightarrow> string" where
  "iso_date d = zpad 4 (year d) @ ''-'' @ zpad 2 (month d) @ ''-'' @ zpad 2 (day d)"

text \<open>\<open>str(value)\<close>. A datetime is taken with whole seconds.\<close>

definition py_str :: "cell \<Rightarrow> string" where
  "py_str v = (case v of
       CNone \<Rightarrow> ''None''
     | CBool b \<Rightarrow> (if b then ''True'' else ''False'')
     | CInt n \<Rightarrow> str_of_int n
     | CFloat r \<Rightarrow> r
     | CStr s \<Rightarrow> s
     | CDate d \<Rightarrow> iso_date d
     | CDateTime d h m s \<Rightarrow> iso_date d @ '' '' @ zpad 2 h @ '':'' @ zpad 2 m @ '':'' @ zpad 2 s)"

text \<open>The truth value of a cell (\<open>if cell\<close>, \<open>not row[0]\<close>, \<open>any(row)\<close>).\<close>

definition truthy :: "cell \<Rightarrow> bool" where
  "truthy v = (case v of
       CNone \<Rightarrow> False
     | CBool b \<Rightarrow> b
     | CInt n \<Rightarrow> n \<noteq> 0
     | CFloat r \<Rightarrow> (case float_of_string r of Some (Finite q) \<Rightarrow> q \<noteq> 0 | _ \<Rightarrow> True)
     | CStr s \<Rightarrow> s \<noteq> []
     | CDate d \<Rightarrow> True
     | CDateTime d h m s \<Rightarrow> True)"

type_synonym worksheet = "cell list list"

section \<open>The importer (excel\_handler.py, ExcelImporter)\<close>

text \<open>The fields of a failure record: the values of \<open>COLUMN_MAPPING\<close>, and \<open>order\<close>.\<close>

datatype field = Fcomponent | Ffailure_mode | Fpotential_cause | Feffect
  | Fgravity | Foccurrence | Fdetection | Fpreventive_actions | Forder

text \<open>A value stored in a failure record: a text or an integer.\<close>

datatype pyval = VStr string | VInt int

text \<open>
  The entries of \<open>self.warnings\<close> and \<open>self.errors\<close>. The source formats each as a
  text; the model keeps the row number, the field and the values the text is built from.
\<close>

datatype message =
    NoHeaders
  | IncompleteRow nat
  | InvalidDate string
  | ScoreLimited nat field int int
  | ScoreInvalid nat field string
  | SystemNameMissing
  | NoFailureFound
  | ComponentMissing nat
  | FailureModeMissing nat
  | ScoreMissing nat field
  | ScoreNotValid nat field pyval

record importer =
  errors :: "message list"
  warnings :: "message list"

definition add_warning :: "message \<Rightarrow> importer \<Rightarrow> importer" where
  "add_warning m st = st\<lparr>warnings := warnings st @ [m]\<rparr>"

definition add_error :: "message \<Rightarrow> importer \<Rightarrow> importer" where
  "add_error m st = st\<lparr>errors := errors st @ [m]\<rparr>"

subsection \<open>\<open>_parse_score\<close>\<close>

text \<open>
  \<open>score = int(float(str(value)))\<close> inside \<open>try\<close>; \<open>except (ValueError, TypeError)\<close>
  appends an error and returns 5. \<open>float\<close> raises \<open>ValueError\<close> on a text it cannot
  read; \<open>int\<close> raises \<open>ValueError\<close> on a NaN and \<open>OverflowError\<close> on an infinity,
  and the latter is not among the caught exceptions.
\<close>

definition parse_score :: "cell \<Rightarrow> field \<Rightarrow> nat \<Rightarrow> importer \<Rightarrow> exn + (int \<times> importer)" where
  "parse_score v field_name row_num st =
     (case (case float_of_string (py_str v) of None \<Rightarrow> Inl ValueError | Some x \<Rightarrow> int_of_float x) of
        Inr score \<Rightarrow>
          if 1 \<le> score \<and> score \<le> 10 then Inr (score, st)
          else Inr (min 10 (max 1 score),
                    add_warning (ScoreLimited row_num field_name score (min 10 (max 1 score))) st)
      | Inl e \<Rightarrow>
          if e = ValueError \<or> e = TypeError
          then Inr (5, add_error (ScoreInvalid row_num field_name (py_str v)) st)
          else Inl e)"

subsection \<open>\<open>_clean_text\<close>\<close>

function replace :: "string \<Rightarrow> string \<Rightarrow> string \<Rightarrow> string" where
  "replace old new [] = []"
| "replace old new (c # cs) =
     (if old \<noteq> [] \<and> starts_with old (c # cs)
      then new @ replace old new (drop (length old) (c # cs))
      else c # replace old new cs)"
  by pat_completeness auto
termination
  by (relation "measure (\<lambda>(old, new, s). length s)") auto

text \<open>\<open>text.split()\<close>: the maximal runs of characters that are not white space.\<close>

fun split_acc :: "string \<Rightarrow> string \<Rightarrow> string list" where
  "split_acc cur [] = (if cur = [] then [] else [cur])"
| "split_acc cur (c # cs) =
     (if isspace c then (if cur = [] then split_acc [] cs else cur # split_acc [] cs)
      else split_acc (cur @ [c]) cs)"

definition split_ws :: "string \<Rightarrow> string list" where
  "split_ws s = split_acc [] s"

definition CR :: char where "CR = chr 13"
definition LF :: char where "LF = chr 10"

definition clean_text :: "cell \<Rightarrow> string" where
  "clean_text v =
     (if v = CNone then []
      else let text = strip (py_str v);
               text = replace [CR] [LF] (replace [CR, LF] [LF] text);
               text = join '' '' (split_ws text)
           in text)"

subsection \<open>\<open>_parse_date\<close>\<close>

text \<open>
  \<open>datetime.strptime\<close> for the directives the importer uses. Python turns a format into
  a regular expression, matches it at the start of the text (alternatives in the order
  written, backtracking), raises \<open>ValueError\<close> when it does not match or when text is
  left over, and then builds the date, which raises \<open>ValueError\<close> when the day does not
  exist. \<open>None\<close> is \<open>ValueError\<close>.
\<close>

datatype directive = DY | Dm | Dd | Lit char

definition in_range :: "char \<Rightarrow> nat \<Rightarrow> nat \<Rightarrow> bool" where
  "in_range c lo hi = (lo \<le> ord c \<and> ord c \<le> hi)"

definition num2 :: "char \<Rightarrow> char \<Rightarrow> nat" where
  "num2 a b = 10 * (ord a - 48) + (ord b - 48)"

text \<open>\<open>%m\<close> is \<open>1[0-2]|0[1-9]|[1-9]\<close>: the ways to read a month at the start of a text.\<close>

definition month_alts :: "string \<Rightarrow> (nat \<times> string) list" where
  "month_alts s =
     (case s of
        a # b # r \<Rightarrow>
          (if a = CHR ''1'' \<and> in_range b 48 50 then [(num2 a b, r)] else [])
          @ (if a = CHR ''0'' \<and> in_range b 49 57 then [(num2 a b, r)] else [])
          @ (if in_range a 49 57 then [(ord a - 48, b # r)] else [])
      | [a] \<Rightarrow> (if in_range a 49 57 then [(ord a - 48, [])] else [])
      | [] \<Rightarrow> [])"

text \<open>\<open>%d\<close> is \<open>3[01]|[12]\d|0[1-9]|[1-9]| [1-9]\<close>.\<close>

definition day_alts :: "string \<Rightarrow> (nat \<times> string) list" where
  "day_alts s =
     (case s of
        a # b # r \<Rightarrow>
          (if a = CHR ''3'' \<and> in_range b 48 49 then [(num2 a b, r)] else [])
          @ (if in_range a 49 50 \<and> isdigit b then [(num2 a b, r)] else [])
          @ (if a = CHR ''0'' \<and> in_range b 49 57 then [(num2 a b, r)] else [])
          @ (if in_range a 49 57 then [(ord a - 48, b # r)] else [])
          @ (if a = CHR '' '' \<and> in_range b 49 57 then [(ord b - 48, r)] else [])
      | [a] \<Rightarrow> (if in_range a 49 57 then [(ord a - 48, [])] else [])
      | [] \<Rightarrow> [])"

text \<open>\<open>%Y\<close> is four digits.\<close>

definition year_alts :: "string \<Rightarrow> (nat \<times> string) list" where
  "year_alts s =
     (case s of
        a # b # c # d # r \<Rightarrow>
          (if isdigit a \<and> isdigit b \<and> isdigit c \<and> isdigit d
           then [(100 * num2 a b + num2 c d, r)] else [])
      | _ \<Rightarrow> [])"

fun first_some :: "'a option list \<Rightarrow> 'a option" where
  "first_some [] = None"
| "first_some (None # xs) = first_some xs"
| "first_some (Some x # xs) = Some x"

text \<open>
  The match of a format: the first way, in the order of the alternatives, to read all its
  directives; the result holds the year, month and day read and the text left over.
\<close>

fun regex_match :: "directive list \<Rightarrow> string \<Rightarrow> nat \<times> nat \<times> nat \<Rightarrow> ((nat \<times> nat \<times> nat) \<times> string) option" where
  "regex_match [] s ymd = Some (ymd, s)"
| "regex_match (DY # ds) s (y, m, d) =
     first_some (map (\<lambda>(v, r). regex_match ds r (v, m, d)) (year_alts s))"
| "regex_match (Dm # ds) s (y, m, d) =
     first_some (map (\<lambda>(v, r). regex_match ds r (y, v, d)) (month_alts s))"
| "regex_match (Dd # ds) s (y, m, d) =
     first_some (map (\<lambda>(v, r). regex_match ds r (y, m, v)) (day_alts s))"
| "regex_match (Lit c # ds) s ymd =
     (case s of [] \<Rightarrow> None | a # r \<Rightarrow> if lower_char a = lower_char c then regex_match ds r ymd else None)"

definition is_leap :: "nat \<Rightarrow> bool" where
  "is_leap y = (y mod 4 = 0 \<and> (y mod 100 \<noteq> 0 \<or> y mod 400 = 0))"

definition days_in_month :: "nat \<Rightarrow> nat \<Rightarrow> nat" where
  "days_in_month y m =
     (if m = 2 then (if is_leap y then 29 else 28)
      else if m = 4 \<or> m = 6 \<or> m = 9 \<or> m = 11 then 30 else 31)"

definition valid_date :: "nat \<Rightarrow> nat \<Rightarrow> nat \<Rightarrow> bool" where
  "valid_date y m d = (1 \<le> y \<and> y \<le> 9999 \<and> 1 \<le> m \<and> m \<le> 12 \<and> 1 \<le> d \<and> d \<le> days_in_month y m)"

definition strptime :: "string \<Rightarrow> directive list \<Rightarrow> pydate option" where
  "strptime s fmt =
     (case regex_match fmt s (1900, 1, 1) of
        None \<Rightarrow> None
      | Some ((y, m, d), rest) \<Rightarrow>
          if rest \<noteq> [] then None
          else if valid_date y m d then Some \<lparr>year = y, month = m, day = d\<rparr>
          else None)"

text \<open>The list \<open>formats\<close>: \<open>%Y-%m-%d\<close>, \<open>%d/%m/%Y\<close>, \<open>%d-%m-%Y\<close>, \<open>%Y/%m/%d\<close>, \<open>%d.%m.%Y\<close>.\<close>

definition formats :: "directive list list" where
  "formats =
     [[DY, Lit (CHR ''-''), Dm, Lit (CHR ''-''), Dd],
      [Dd, Lit (CHR ''/''), Dm, Lit (CHR ''/''), DY],
      [Dd, Lit (CHR ''-''), Dm, Lit (CHR ''-''), DY],
      [DY, Lit (CHR ''/''), Dm, Lit (CHR ''/''), Dd],
      [Dd, Lit (CHR ''.''), Dm, Lit (CHR ''.''), DY]]"

text \<open>The loop \<open>for fmt in formats: try: return ... except ValueError: continue\<close>.\<close>

fun try_formats :: "directive list list \<Rightarrow> string \<Rightarrow> pydate option" where
  "try_formats [] s = None"
| "try_formats (fmt # fmts) s =
     (case strptime s fmt of Some d \<Rightarrow> Some d | None \<Rightarrow> try_formats fmts s)"

text \<open>
  \<open>_parse_date\<close>. \<open>today\<close> is what \<open>date.today()\<close> returns. A date or a datetime is
  returned as it is (the model keeps its calendar date); a text goes through the formats;
  anything else, and a text that no format reads, ends in the warning and today's date.
\<close>

definition parse_date :: "pydate \<Rightarrow> cell \<Rightarrow> importer \<Rightarrow> pydate \<times> importer" where
  "parse_date today v st =
     (case v of
        CDate d \<Rightarrow> (d, st)
      | CDateTime d h m s \<Rightarrow> (d, st)
      | _ \<Rightarrow>
          (case (case v of CStr s \<Rightarrow> try_formats formats (strip s) | _ \<Rightarrow> None) of
             Some d \<Rightarrow> (d, st)
           | None \<Rightarrow> (today, add_warning (InvalidDate (py_str v)) st)))"

subsection \<open>\<open>_extract_metadata\<close>\<close>

record metadata =
  system_name :: string
  analysis_date :: pydate
  team_members :: string
  objective :: string
  client :: string
  reference :: string

datatype mfield = Msystem_name | Manalysis_date | Mteam_members | Mobjective | Mclient
  | Mreference

text \<open>\<open>METADATA_KEYWORDS\<close>, in the order of the dictionary.\<close>

definition METADATA_KEYWORDS :: "(string \<times> mfield) list" where
  "METADATA_KEYWORDS =
     [(''syst'' @ [e_grave] @ ''me'', Msystem_name),
      (''date'', Manalysis_date),
      ([e_acute] @ ''quipe'', Mteam_members),
      (''objectif'', Mobjective),
      (''client'', Mclient),
      (''r'' @ [e_acute] @ ''f'' @ [e_acute] @ ''rence'', Mreference)]"

text \<open>\<open>for keyword, field in ...: if keyword in text: ... break\<close>: the first entry whose key the text contains.\<close>

fun find_keyword :: "(string \<times> 'a) list \<Rightarrow> string \<Rightarrow> 'a option" where
  "find_keyword [] text = None"
| "find_keyword ((keyword, field) # rest) text =
     (if contains keyword text then Some field else find_keyword rest text)"

text \<open>
  What one of the first fifteen rows assigns: the field of the first keyword its first
  cell contains, and the stripped text of its second cell, when that cell is there and true.
\<close>

definition row_assignment :: "cell list \<Rightarrow> (mfield \<times> string) option" where
  "row_assignment row =
     (if row = [] \<or> \<not> truthy (hd row) then None
      else let first_cell = strip (lower (py_str (hd row))) in
        (case find_keyword METADATA_KEYWORDS first_cell of
           None \<Rightarrow> None
         | Some field \<Rightarrow>
             if length row > 1 \<and> truthy (row ! 1) then Some (field, strip (py_str (row ! 1)))
             else None))"

definition set_metadata :: "pydate \<Rightarrow> mfield \<Rightarrow> string \<Rightarrow> metadata \<times> importer \<Rightarrow> metadata \<times> importer" where
  "set_metadata today field v acc =
     (let (md, st) = acc in
      case field of
        Manalysis_date \<Rightarrow> (let (d, st') = parse_date today (CStr v) st in (md\<lparr>analysis_date := d\<rparr>, st'))
      | Msystem_name \<Rightarrow> (md\<lparr>system_name := v\<rparr>, st)
      | Mteam_members \<Rightarrow> (md\<lparr>team_members := v\<rparr>, st)
      | Mobjective \<Rightarrow> (md\<lparr>objective := v\<rparr>, st)
      | Mclient \<Rightarrow> (md\<lparr>client := v\<rparr>, st)
      | Mreference \<Rightarrow> (md\<lparr>reference := v\<rparr>, st))"

text \<open>The first loop, over the rows 1 to 15.\<close>

fun metadata_rows :: "pydate \<Rightarrow> worksheet \<Rightarrow> metadata \<times> importer \<Rightarrow> metadata \<times> importer" where
  "metadata_rows today [] acc = acc"
| "metadata_rows today (row # rows) acc =
     metadata_rows today rows
       (case row_assignment row of
          None \<Rightarrow> acc
        | Some (field, v) \<Rightarrow> set_metadata today field v acc)"

text \<open>The second loop, over the rows 1 to 5: the name in a title cell, up to its first break.\<close>

fun header_name :: "worksheet \<Rightarrow> metadata \<Rightarrow> metadata" where
  "header_name [] md = md"
| "header_name (row # rows) md =
     (if row \<noteq> [] \<and> truthy (hd row) then
        (let cell_value = py_str (hd row) in
         if contains ''STEP'' cell_value \<or> contains ''AMDEC'' cell_value then
           (let name = strip (filter (\<lambda>c. c \<noteq> CR) (takeWhile (\<lambda>c. c \<noteq> LF) cell_value))
            in if system_name md = [] \<and> name \<noteq> [] then md\<lparr>system_name := name\<rparr> else md)
         else header_name rows md)
      else header_name rows md)"

text \<open>\<open>now.strftime('%Y%m%d-%H%M')\<close>.\<close>

definition stamp_minutes :: "pydatetime \<Rightarrow> string" where
  "stamp_minutes now = zpad 4 (year now) @ zpad 2 (month now) @ zpad 2 (day now) @ ''-''
                       @ zpad 2 (hour now) @ zpad 2 (minute now)"

definition extract_metadata :: "pydate \<Rightarrow> pydatetime \<Rightarrow> worksheet \<Rightarrow> importer \<Rightarrow> metadata \<times> importer" where
  "extract_metadata today now ws st =
     (let md0 = \<lparr>system_name = [], analysis_date = today, team_members = [], objective = [],
                 client = [], reference = ''AMDEC-'' @ stamp_minutes now\<rparr>;
          (md1, st1) = metadata_rows today (take 15 ws) (md0, st)
      in (header_name (take 5 ws) md1, st1))"

subsection \<open>\<open>_extract_failures\<close>\<close>

text \<open>\<open>COLUMN_MAPPING\<close>, in the order of the dictionary.\<close>

definition COLUMN_MAPPING :: "(string \<times> field) list" where
  "COLUMN_MAPPING =
     [(''Composant'', Fcomponent),
      (''Mode de D'' @ [e_acute] @ ''faillance'', Ffailure_mode),
      (''Cause Potentielle'', Fpotential_cause),
      (''Effet'', Feffect),
      (''Gravit'' @ [e_acute] @ '' (G)'', Fgravity),
      (''Occurrence (O)'', Foccurrence),
      (''D'' @ [e_acute] @ ''tection (D)'', Fdetection),
      (''Actions Pr'' @ [e_acute] @ ''ventives'', Fpreventive_actions)]"

type_synonym failure_data = "(field \<times> pyval) list"

text \<open>\<open>' '.join(str(cell) for cell in row if cell)\<close>.\<close>

definition row_text :: "cell list \<Rightarrow> string" where
  "row_text row = join '' '' (map py_str (filter truthy row))"

definition is_header :: "cell list \<Rightarrow> bool" where
  "is_header row =
     (let row_str = row_text row in
      contains ''Composant'' row_str
      \<and> (contains ''Mode'' row_str \<or> contains (''D'' @ [e_acute] @ ''faillance'') row_str))"

text \<open>The label a header cell matches: the first one it contains, as written or in lower case.\<close>

fun find_column :: "(string \<times> field) list \<Rightarrow> string \<Rightarrow> field option" where
  "find_column [] cell_str = None"
| "find_column ((excel_name, field_name) # rest) cell_str =
     (if contains excel_name cell_str \<or> contains (lower excel_name) (lower cell_str)
      then Some field_name else find_column rest cell_str)"

text \<open>
  \<open>column_indices\<close> is a dictionary: an assignment to a key it holds replaces the value
  in place, a new key goes to the end.
\<close>

fun map_columns :: "nat \<Rightarrow> cell list \<Rightarrow> (field \<times> nat) list \<Rightarrow> (field \<times> nat) list" where
  "map_columns col_idx [] ci = ci"
| "map_columns col_idx (c # cs) ci =
     map_columns (Suc col_idx) cs
       (if truthy c then
          (case find_column COLUMN_MAPPING (strip (py_str c)) of
             Some field_name \<Rightarrow> AList.update field_name col_idx ci
           | None \<Rightarrow> ci)
        else ci)"

text \<open>The search for the header row; rows are numbered from 1.\<close>

fun find_header :: "nat \<Rightarrow> worksheet \<Rightarrow> (nat \<times> (field \<times> nat) list) option" where
  "find_header row_idx [] = None"
| "find_header row_idx (row # rows) =
     (if row = [] then find_header (Suc row_idx) rows
      else if is_header row then Some (row_idx, map_columns 0 row [])
      else find_header (Suc row_idx) rows)"

text \<open>The keywords that mark the summary block under the table.\<close>

definition summary_keywords :: "string list" where
  "summary_keywords =
     [''r'' @ [e_acute] @ ''sum'' @ [e_acute],
      ''total'',
      ''criticit'' @ [e_acute] @ '' '' @ [e_acute] @ ''lev'' @ [e_acute] @ ''e'',
      ''criticit'' @ [e_acute] @ '' mod'' @ [e_acute] @ ''r'' @ [e_acute] @ ''e'']"

definition is_summary :: "cell list \<Rightarrow> bool" where
  "is_summary row =
     (let first_cell = (if truthy (hd row) then py_str (hd row) else [])
      in \<exists>keyword \<in> set summary_keywords. contains keyword (lower first_cell))"

definition is_score_field :: "field \<Rightarrow> bool" where
  "is_score_field f = (f = Fgravity \<or> f = Foccurrence \<or> f = Fdetection)"

text \<open>The loop over \<open>column_indices.items()\<close> for one row.\<close>

fun read_fields :: "(field \<times> nat) list \<Rightarrow> cell list \<Rightarrow> nat \<Rightarrow> failure_data \<Rightarrow> importer
    \<Rightarrow> exn + (failure_data \<times> importer)" where
  "read_fields [] row row_idx fd st = Inr (fd, st)"
| "read_fields ((field_name, col_idx) # rest) row row_idx fd st =
     (if col_idx < length row then
        (let v = row ! col_idx in
         if is_score_field field_name then
           (case parse_score v field_name row_idx st of
              Inl e \<Rightarrow> Inl e
            | Inr (n, st') \<Rightarrow> read_fields rest row row_idx (AList.update field_name (VInt n) fd) st')
         else read_fields rest row row_idx
                (AList.update field_name (VStr (if truthy v then clean_text v else [])) fd) st)
      else read_fields rest row row_idx fd st)"

text \<open>The truth value of \<open>failure_data.get(key)\<close>.\<close>

definition has_value :: "failure_data \<Rightarrow> field \<Rightarrow> bool" where
  "has_value fd f = (case map_of fd f of
       None \<Rightarrow> False
     | Some (VStr s) \<Rightarrow> s \<noteq> []
     | Some (VInt n) \<Rightarrow> n \<noteq> 0)"

text \<open>\<open>not row or not any(row)\<close>.\<close>

definition blank_row :: "cell list \<Rightarrow> bool" where
  "blank_row row = (row = [] \<or> \<not> (\<exists>c \<in> set row. truthy c))"

text \<open>The loop over the rows under the header; \<open>row_idx\<close> is the number of the first row given.\<close>

fun data_rows :: "(field \<times> nat) list \<Rightarrow> nat \<Rightarrow> worksheet \<Rightarrow> failure_data list \<Rightarrow> importer
    \<Rightarrow> exn + (failure_data list \<times> importer)" where
  "data_rows ci row_idx [] failures st = Inr (failures, st)"
| "data_rows ci row_idx (row # rows) failures st =
     (if blank_row row then data_rows ci (Suc row_idx) rows failures st
      else if is_summary row then Inr (failures, st)
      else
        (case read_fields ci row row_idx [(Forder, VInt (int (length failures)))] st of
           Inl e \<Rightarrow> Inl e
         | Inr (failure_data, st') \<Rightarrow>
             if has_value failure_data Fcomponent \<and> has_value failure_data Ffailure_mode
             then data_rows ci (Suc row_idx) rows (failures @ [failure_data]) st'
             else data_rows ci (Suc row_idx) rows failures (add_warning (IncompleteRow row_idx) st')))"

definition extract_failures :: "worksheet \<Rightarrow> importer \<Rightarrow> exn + (failure_data list \<times> importer)" where
  "extract_failures ws st =
     (case find_header 1 ws of
        None \<Rightarrow> Inr ([], add_warning NoHeaders st)
      | Some (header_row, column_indices) \<Rightarrow>
          if column_indices = [] then Inr ([], add_warning NoHeaders st)
          else data_rows column_indices (header_row + 1) (drop header_row ws) [] st)"

subsection \<open>\<open>_calculate_summary\<close>\<close>

record summary =
  total :: nat
  high :: nat
  medium :: nat
  low :: nat

text \<open>
  The product of the three scores of a record that holds all three. The values are
  integers, as \<open>_parse_score\<close> returns them.
\<close>

definition record_criticality :: "failure_data \<Rightarrow> int option" where
  "record_criticality fd =
     (case (map_of fd Fgravity, map_of fd Foccurrence, map_of fd Fdetection) of
        (Some (VInt g), Some (VInt oc), Some (VInt d)) \<Rightarrow> Some (g * oc * d)
      | _ \<Rightarrow> None)"

fun calculate_summary_loop :: "failure_data list \<Rightarrow> summary \<Rightarrow> summary" where
  "calculate_summary_loop [] s = s"
| "calculate_summary_loop (fd # fds) s =
     calculate_summary_loop fds
       (case record_criticality fd of
          None \<Rightarrow> s
        | Some c \<Rightarrow> if c > 120 then s\<lparr>high := high s + 1\<rparr>
                    else if c > 60 then s\<lparr>medium := medium s + 1\<rparr>
                    else s\<lparr>low := low s + 1\<rparr>)"

definition calculate_summary :: "failure_data list \<Rightarrow> summary" where
  "calculate_summary failures =
     calculate_summary_loop failures \<lparr>total = length failures, high = 0, medium = 0, low = 0\<rparr>"

subsection \<open>\<open>parse_excel\<close> and \<open>validate_data\<close>\<close>

record parse_result =
  pr_metadata :: metadata
  pr_failures :: "failure_data list"
  pr_summary :: summary

text \<open>A loaded workbook: its sheets by name, in order.\<close>

type_synonym workbook = "(string \<times> worksheet) list"

definition select_sheet :: "workbook \<Rightarrow> worksheet" where
  "select_sheet wb =
     (case first_some (map (map_of wb) [''Analyse AMDEC'', ''AMDEC'', ''Analysis'']) of
        Some ws \<Rightarrow> ws
      | None \<Rightarrow> snd (hd wb))"

definition parse_excel :: "pydate \<Rightarrow> pydatetime \<Rightarrow> workbook \<Rightarrow> importer \<Rightarrow> exn + (parse_result \<times> importer)" where
  "parse_excel today now wb st =
     (if wb = [] then Inl (ValidationError [NoSheetInWorkbook])
      else let ws = select_sheet wb;
               (md, st1) = extract_metadata today now ws st
           in (case extract_failures ws st1 of
                 Inl e \<Rightarrow> Inl e
               | Inr (failures, st2) \<Rightarrow>
                   Inr (\<lparr>pr_metadata = md, pr_failures = failures,
                         pr_summary = calculate_summary failures\<rparr>, st2)))"

text \<open>The checks of one record in \<open>validate_data\<close>; \<open>idx\<close> counts the records from 1.\<close>

definition check_score :: "nat \<Rightarrow> failure_data \<Rightarrow> field \<Rightarrow> importer \<Rightarrow> importer" where
  "check_score idx fd f st =
     (case map_of fd f of
        None \<Rightarrow> add_error (ScoreMissing idx f) st
      | Some (VInt n) \<Rightarrow> if 1 \<le> n \<and> n \<le> 10 then st else add_error (ScoreNotValid idx f (VInt n)) st
      | Some v \<Rightarrow> add_error (ScoreNotValid idx f v) st)"

definition check_failure :: "nat \<Rightarrow> failure_data \<Rightarrow> importer \<Rightarrow> importer" where
  "check_failure idx fd st =
     (let st1 = (if \<not> has_value fd Fcomponent then add_error (ComponentMissing idx) st else st);
          st2 = (if \<not> has_value fd Ffailure_mode then add_error (FailureModeMissing idx) st1 else st1)
      in check_score idx fd Fdetection (check_score idx fd Foccurrence (check_score idx fd Fgravity st2)))"

fun check_failures :: "nat \<Rightarrow> failure_data list \<Rightarrow> importer \<Rightarrow> importer" where
  "check_failures idx [] st = st"
| "check_failures idx (fd # fds) st = check_failures (Suc idx) fds (check_failure idx fd st)"

definition validate_data :: "parse_result \<Rightarrow> importer \<Rightarrow> bool \<times> importer" where
  "validate_data data st =
     (let st0 = st\<lparr>errors := []\<rparr>;
          st1 = (if system_name (pr_metadata data) = [] then add_error SystemNameMissing st0 else st0)
      in if pr_failures data = [] then (False, add_error NoFailureFound st1)
         else let st2 = check_failures 1 (pr_failures data) st1 in (errors st2 = [], st2))"

section \<open>The exporter (excel\_handler.py, ExcelExporter)\<close>

text \<open>
  A project as the exporter reads it: its reference, its name and its failure modes
  (\<open>project.failures.all()\<close>). A sheet is modelled by the rows of cell values it holds
  once written, which is what \<open>iter_rows(values_only=True)\<close> gives when the saved file
  is loaded again; cell styles, widths and merges carry no value.
\<close>

record project =
  p_reference :: string
  p_name :: string
  p_failures :: "FailureMode list"

definition failure_headers :: "string list" where
  "failure_headers =
     [''Composant'',
      ''Mode de D'' @ [e_acute] @ ''faillance'',
      ''Cause Potentielle'',
      ''Effet'',
      ''Gravit'' @ [e_acute] @ '' (G)'',
      ''Occurrence (O)'',
      ''D'' @ [e_acute] @ ''tection (D)'',
      ''Criticit'' @ [e_acute] @ '' (C)'',
      ''Niveau de Criticit'' @ [e_acute],
      ''Actions Pr'' @ [e_acute] @ ''ventives'']"

text \<open>\<open>x or default\<close> on an optional text.\<close>

definition or_default :: "string option \<Rightarrow> string \<Rightarrow> string" where
  "or_default x dflt = (case x of None \<Rightarrow> dflt | Some s \<Rightarrow> if s = [] then dflt else s)"

text \<open>\<open>order_by('-gravity', '-occurrence', '-detection')\<close>.\<close>

definition order_by_scores :: "FailureMode list \<Rightarrow> FailureMode list" where
  "order_by_scores fs = sort_key (\<lambda>f. (- gravity f, - occurrence f, - detection f)) fs"

definition failure_row :: "FailureMode \<Rightarrow> cell list" where
  "failure_row failure =
     [CStr (component failure),
      CStr (failure_mode failure),
      CStr (potential_cause failure),
      CStr (effect failure),
      CInt (gravity failure),
      CInt (occurrence failure),
      CInt (detection failure),
      CInt (criticality failure),
      CStr (criticality_level failure),
      CStr (or_default (preventive_actions failure) [])]"

definition sheet_title :: "project \<Rightarrow> string" where
  "sheet_title p = p_reference p @ '' - '' @ p_name p @ [LF]
                   @ ''ANALYSE DES MODES DE D'' @ [E_acute] @ ''FAILLANCE''"

text \<open>
  \<open>generate_failures_sheet\<close>: the title in A1, nothing in row 2, the ten headers in row 3,
  one row per failure from row 4 on.
\<close>

definition generate_failures_sheet :: "project \<Rightarrow> worksheet" where
  "generate_failures_sheet p =
     [CStr (sheet_title p) # replicate 9 CNone,
      replicate 10 CNone,
      map CStr failure_headers]
     @ map failure_row (order_by_scores (p_failures p))"

text \<open>\<open>deadline.strftime('%d/%m/%Y')\<close>.\<close>

definition format_deadline :: "pydate \<Rightarrow> string" where
  "format_deadline d = zpad 2 (day d) @ ''/'' @ zpad 2 (month d) @ ''/'' @ zpad 4 (year d)"

definition A_definir :: string where "A_definir = [A_grave] @ '' d'' @ [e_acute] @ ''finir''"
definition A_assigner :: string where "A_assigner = [A_grave] @ '' assigner''"
definition A_planifier :: string where "A_planifier = [A_grave] @ '' planifier''"

definition deadline_cell :: "FailureMode \<Rightarrow> cell" where
  "deadline_cell failure =
     CStr (case deadline failure of Some d \<Rightarrow> format_deadline d | None \<Rightarrow> A_planifier)"

definition action_headers :: "string list" where
  "action_headers =
     [''Composant'', ''D'' @ [e_acute] @ ''faillance'', ''Criticit'' @ [e_acute],
      ''Actions Recommand'' @ [e_acute] @ ''es'', ''Responsable'', [E_acute] @ ''ch'' @ [e_acute] @ ''ance'']"

text \<open>A row of the first table: six \<open>ws.cell(row, column, value)\<close> calls.\<close>

definition high_row :: "FailureMode \<Rightarrow> cell list" where
  "high_row failure =
     [CStr (component failure),
      CStr (failure_mode failure),
      CInt (criticality failure),
      CStr (or_default (preventive_actions failure) A_definir),
      CStr (or_default (responsible failure) A_assigner),
      deadline_cell failure]"

text \<open>
  A row of the second table: the source writes the columns 1, 5 and 6; the loop over the
  borders touches the six cells, so the columns 2 to 4 are empty cells.
\<close>

definition medium_row :: "FailureMode \<Rightarrow> cell list" where
  "medium_row failure =
     [CStr (component failure),
      CNone,
      CNone,
      CNone,
      CStr (or_default (responsible failure) A_assigner),
      deadline_cell failure]"

definition title_row :: "string \<Rightarrow> cell list" where
  "title_row s = CStr s # replicate 5 CNone"

text \<open>
  \<open>generate_actions_sheet\<close>. The name \<open>headers\<close> is bound inside \<open>if high_failures:\<close>
  only; the second table reads it when \<open>medium_failures\<close> is not empty.
\<close>

definition generate_actions_sheet :: "project \<Rightarrow> exn + worksheet" where
  "generate_actions_sheet p =
     (let high_failures = filter (\<lambda>f. criticality f > 120) (p_failures p);
          medium_failures = filter (\<lambda>f. 61 \<le> criticality f \<and> criticality f \<le> 120) (p_failures p);
          top = [title_row (''PLAN D'' @ [CHR 39] @ ''ACTIONS PRIORITAIRES''),
                 replicate 6 CNone,
                 title_row (''ACTIONS IMM'' @ [E_acute] @ ''DIATES (Criticit'' @ [e_acute] @ '' > 120)'')];
          high_block = (if high_failures \<noteq> [] then map CStr action_headers # map high_row high_failures
                        else [title_row (''Aucune d'' @ [e_acute] @ ''faillance de criticit'' @ [e_acute] @ '' ''
                                         @ [e_acute] @ ''lev'' @ [e_acute] @ ''e'')]);
          gap = [replicate 6 CNone, replicate 6 CNone];
          medium_title = title_row (''ACTIONS '' @ [A_grave] @ '' MOYEN TERME (Criticit'' @ [e_acute] @ '' 61-120)'')
      in if medium_failures \<noteq> [] then
           (if high_failures \<noteq> [] then
              Inr (top @ high_block @ gap @ [medium_title]
                   @ (map CStr action_headers # map medium_row medium_failures))
            else Inl UnboundLocalError)
         else Inr (top @ high_block @ gap @ [medium_title]
                   @ [title_row (''Aucune d'' @ [e_acute] @ ''faillance de criticit'' @ [e_acute] @ '' mod''
                                 @ [e_acute] @ ''r'' @ [e_acute] @ ''e'')]))"

section \<open>The validators (validators.py)\<close>

text \<open>\<open>float(value)\<close> on any value.\<close>

definition float_of_value :: "cell \<Rightarrow> exn + pyfloat" where
  "float_of_value v = (case v of
       CStr s \<Rightarrow> (case float_of_string s of None \<Rightarrow> Inl ValueError | Some x \<Rightarrow> Inr x)
     | CFloat r \<Rightarrow> (case float_of_string r of None \<Rightarrow> Inl ValueError | Some x \<Rightarrow> Inr x)
     | CInt n \<Rightarrow> (case to_double (of_int n) of Finite q \<Rightarrow> Inr (Finite q) | _ \<Rightarrow> Inl OverflowError)
     | CBool b \<Rightarrow> Inr (Finite (if b then 1 else 0))
     | _ \<Rightarrow> Inl TypeError)"

definition validate_score :: "cell \<Rightarrow> string \<Rightarrow> exn + int" where
  "validate_score v field_name =
     (let v' = (case v of CStr s \<Rightarrow> CStr (replace '','' ''.'' (strip s)) | _ \<Rightarrow> v) in
      case (case float_of_value v' of Inl e \<Rightarrow> Inl e | Inr x \<Rightarrow> int_of_float x) of
        Inl e \<Rightarrow>
          if e = ValueError \<or> e = TypeError
          then Inl (ValidationError [NotANumber field_name (py_str v')])
          else Inl e
      | Inr score \<Rightarrow>
          if \<not> (1 \<le> score \<and> score \<le> 10)
          then Inl (ValidationError [ScoreOutOfLimits field_name score])
          else Inr score)"

text \<open>
  One \<open>try: x = validate_score(x, name) except ValidationError as e: errors.append(str(e))\<close>.
  Only a \<open>ValidationError\<close> is caught. After a failure the name keeps the raw value,
  which is not read again; the model holds 0 there.
\<close>

definition try_score :: "cell \<Rightarrow> string \<Rightarrow> vmessage list \<Rightarrow> exn + (int \<times> vmessage list)" where
  "try_score v field_name errs =
     (case validate_score v field_name of
        Inr n \<Rightarrow> Inr (n, errs)
      | Inl (ValidationError ms) \<Rightarrow> Inr (0, errs @ [ErrorText ms])
      | Inl e \<Rightarrow> Inl e)"

definition name_G :: string where "name_G = ''Gravit'' @ [e_acute] @ '' (G)''"
definition name_O :: string where "name_O = ''Occurrence (O)''"
definition name_D :: string where "name_D = ''D'' @ [e_acute] @ ''tection (D)''"

text \<open>The entries of the log: \<open>logger.warning\<close> of a very high criticality.\<close>

datatype log_entry = VeryHighCriticality int int int int

definition validate_criticality_scores :: "cell \<Rightarrow> cell \<Rightarrow> cell \<Rightarrow> exn + ((int \<times> int \<times> int) \<times> log_entry list)" where
  "validate_criticality_scores gravity0 occurrence0 detection0 =
     (case try_score gravity0 name_G [] of
        Inl e \<Rightarrow> Inl e
      | Inr (g, errs1) \<Rightarrow>
     (case try_score occurrence0 name_O errs1 of
        Inl e \<Rightarrow> Inl e
      | Inr (oc, errs2) \<Rightarrow>
     (case try_score detection0 name_D errs2 of
        Inl e \<Rightarrow> Inl e
      | Inr (d, errs3) \<Rightarrow>
          if errs3 \<noteq> [] then Inl (ValidationError errs3)
          else let crit = g * oc * d
               in Inr ((g, oc, d), if crit > 500 then [VeryHighCriticality crit g oc d] else []))))"

text \<open>\<open>now.strftime('%Y%m%d-%H%M%S')\<close>.\<close>

definition stamp_seconds :: "pydatetime \<Rightarrow> string" where
  "stamp_seconds now = zpad 4 (year now) @ zpad 2 (month now) @ zpad 2 (day now) @ ''-''
                       @ zpad 2 (hour now) @ zpad 2 (minute now) @ zpad 2 (second now)"

definition ref_char :: "char \<Rightarrow> bool" where
  "ref_char c = (in_range c 65 90 \<or> isdigit c \<or> c = CHR ''-'' \<or> c = CHR ''_'')"

text \<open>
  \<open>re.match(r'^[A-Z0-9\-_]+$', reference)\<close>: one or more of the characters, up to the
  end of the text or to a line feed that ends it.
\<close>

definition ref_match :: "string \<Rightarrow> bool" where
  "ref_match r = (let body = (if r \<noteq> [] \<and> last r = LF then butlast r else r)
                  in body \<noteq> [] \<and> list_all ref_char body)"

definition validate_reference :: "pydatetime \<Rightarrow> string \<Rightarrow> exn + string" where
  "validate_reference now reference0 =
     (if reference0 = [] then Inr (''AMDEC-'' @ stamp_seconds now)
      else let r = upper (strip reference0) in
        if \<not> ref_match r then Inl (ValidationError [InvalidReference r])
        else if length r > 50 then Inl (ValidationError [ReferenceTooLong (length r)])
        else if length r < 3 then Inl (ValidationError [ReferenceTooShort (length r)])
        else Inr r)"

section \<open>Predicates of the statements\<close>

text \<open>The pattern \<open>^AMDEC-\d{8}-\d{6}$\<close> of a generated reference, on the whole text.\<close>

definition generated_reference :: "string \<Rightarrow> bool" where
  "generated_reference s =
     (length s = 21 \<and> take 6 s = ''AMDEC-'' \<and> list_all isdigit (take 8 (drop 6 s))
      \<and> s ! 14 = CHR ''-'' \<and> list_all isdigit (drop 15 s))"

text \<open>A moment \<open>datetime.now()\<close> can return, with a year of four digits.\<close>

definition valid_now :: "pydatetime \<Rightarrow> bool" where
  "valid_now now =
     (1000 \<le> year now \<and> year now \<le> 9999 \<and> 1 \<le> month now \<and> month now \<le> 12
      \<and> 1 \<le> day now \<and> day now \<le> 31 \<and> hour now < 24 \<and> minute now < 60 \<and> second now < 60)"

text \<open>The value of a metadata field, and the value a row's text gives to a field.\<close>

datatype mvalue = MText string | MDate pydate

definition metadata_field :: "mfield \<Rightarrow> metadata \<Rightarrow> mvalue" where
  "metadata_field field md = (case field of
       Msystem_name \<Rightarrow> MText (system_name md)
     | Manalysis_date \<Rightarrow> MDate (analysis_date md)
     | Mteam_members \<Rightarrow> MText (team_members md)
     | Mobjective \<Rightarrow> MText (objective md)
     | Mclient \<Rightarrow> MText (client md)
     | Mreference \<Rightarrow> MText (reference md))"

definition assigned_value :: "pydate \<Rightarrow> mfield \<Rightarrow> string \<Rightarrow> mvalue" where
  "assigned_value today field v =
     (if field = Manalysis_date
      then MDate (case try_formats formats (strip v) of Some d \<Rightarrow> d | None \<Rightarrow> today)
      else MText v)"

text \<open>A cell that \<open>float\<close> does not read as an infinity: the score parser returns on it.\<close>

definition score_readable :: "cell \<Rightarrow> bool" where
  "score_readable c = (float_of_string (py_str c) \<noteq> Some PosInf \<and> float_of_string (py_str c) \<noteq> Some NegInf)"

text \<open>
  The rows the loop under the header reads, with their numbers: the rows that are not
  blank, up to the first one that opens the summary block.
\<close>

fun read_rows :: "nat \<Rightarrow> worksheet \<Rightarrow> (nat \<times> cell list) list" where
  "read_rows n [] = []"
| "read_rows n (row # rows) =
     (if blank_row row then read_rows (Suc n) rows
      else if is_summary row then []
      else (n, row) # read_rows (Suc n) rows)"

text \<open>
  A row holds a text field: the field has a column, the row reaches it, and the cell
  there is true and not empty once cleaned.
\<close>

definition cell_present :: "(field \<times> nat) list \<Rightarrow> cell list \<Rightarrow> field \<Rightarrow> bool" where
  "cell_present ci row f =
     (case map_of ci f of
        None \<Rightarrow> False
      | Some i \<Rightarrow> i < length row \<and> truthy (row ! i) \<and> clean_text (row ! i) \<noteq> [])"

definition row_complete :: "(field \<times> nat) list \<Rightarrow> cell list \<Rightarrow> bool" where
  "row_complete ci row = (cell_present ci row Fcomponent \<and> cell_present ci row Ffailure_mode)"

text \<open>A record that \<open>validate_data\<close> accepts.\<close>

definition record_valid :: "failure_data \<Rightarrow> bool" where
  "record_valid fd =
     (has_value fd Fcomponent \<and> has_value fd Ffailure_mode
      \<and> list_all (\<lambda>f. case map_of fd f of Some (VInt n) \<Rightarrow> 1 \<le> n \<and> n \<le> 10 | _ \<Rightarrow> False)
           [Fgravity, Foccurrence, Fdetection])"

section \<open>Properties\<close>

lemma level_names_distinct:
  "FAIBLE \<noteq> MODEREE" "FAIBLE \<noteq> ELEVEE" "MODEREE \<noteq> ELEVEE"
  by (simp_all add: FAIBLE_def MODEREE_def ELEVEE_def E_acute_def chr_def)

text \<open>
  C4. For all scores g, oc, d in 1..10, the level of the product g*oc*d is FAIBLE exactly
  when the product is at most 60, MODEREE exactly when it lies in 61..120 and ELEVEE
  exactly when it exceeds 120; this holds for the helper of validators.py and for the
  property of the FailureMode record.
\<close>

theorem criticality_level_bands:
  assumes "1 \<le> g" "g \<le> 10" "1 \<le> oc" "oc \<le> 10" "1 \<le> d" "d \<le> 10"
    and "gravity f = g" "occurrence f = oc" "detection f = d"
  shows "(get_criticality_level (g * oc * d) = FAIBLE \<longleftrightarrow> g * oc * d \<le> 60)
       \<and> (get_criticality_level (g * oc * d) = MODEREE \<longleftrightarrow> 61 \<le> g * oc * d \<and> g * oc * d \<le> 120)
       \<and> (get_criticality_level (g * oc * d) = ELEVEE \<longleftrightarrow> g * oc * d > 120)
       \<and> (criticality_level f = FAIBLE \<longleftrightarrow> g * oc * d \<le> 60)
       \<and> (criticality_level f = MODEREE \<longleftrightarrow> 61 \<le> g * oc * d \<and> g * oc * d \<le> 120)
       \<and> (criticality_level f = ELEVEE \<longleftrightarrow> g * oc * d > 120)"
proof -
  have c: "criticality f = g * oc * d"
    using assms by (simp add: criticality_def)
  have l: "criticality_level f = get_criticality_level (g * oc * d)"
    by (simp add: criticality_level_def get_criticality_level_def c Let_def)
  show ?thesis
    unfolding l get_criticality_level_def
    using level_names_distinct by auto
qed

theorem criticality_level_bands_witness:
  "get_criticality_level (5 * 5 * 4) = MODEREE
   \<and> criticality_level \<lparr>component = ''Pump'', failure_mode = ''Leak'', potential_cause = [],
        effect = [], gravity = 5, occurrence = 5, detection = 4, preventive_actions = None,
        responsible = None, deadline = None\<rparr> = MODEREE"
  using criticality_level_bands [of 5 5 4
    "\<lparr>component = ''Pump'', failure_mode = ''Leak'', potential_cause = [],
        effect = [], gravity = 5, occurrence = 5, detection = 4, preventive_actions = None,
        responsible = None, deadline = None\<rparr>"]
  by simp

subsection \<open>The score parser\<close>

lemma parse_score_range:
  "parse_score v f r st = Inr (n, st') \<Longrightarrow> 1 \<le> n \<and> n \<le> 10"
  by (auto simp: parse_score_def split: option.splits sum.splits if_splits)

text \<open>
  C3. The claim says that the importer's score parser never raises, whatever the cell
  holds. A cell holding the text \<open>inf\<close> is read by \<open>float\<close> as an infinity, on which
  \<open>int\<close> raises \<open>OverflowError\<close>; the parser catches \<open>ValueError\<close> and \<open>TypeError\<close>
  only, so the exception leaves it.
\<close>

theorem parse_score_infinity_raises:
  "parse_score (CStr ''inf'') Fgravity 4 \<lparr>errors = [], warnings = []\<rparr> = Inl OverflowError"
  by code_simp

subsection \<open>The validators\<close>

text \<open>
  C9. The claim says that \<open>validate_criticality_scores\<close> validates all three scores and
  collects every failure before it raises one aggregated error. With the gravity \<open>inf\<close>
  the strict validation raises \<open>OverflowError\<close>, which is not a \<open>ValidationError\<close>:
  the call ends there, and the bad occurrence \<open>abc\<close> is never looked at.
\<close>

theorem validate_criticality_scores_overflow:
  "validate_criticality_scores (CStr ''inf'') (CStr ''abc'') (CInt 5) = Inl OverflowError"
  by code_simp

subsection \<open>The action plan\<close>

text \<open>
  C2. The claim says that every row of both tables of the action plan lists the
  component, the failure mode, the criticality and the preventive actions, the
  responsible and the deadline. For a project with one failure of criticality 504 and one
  of criticality 100, the row of the second table (row 10 of the sheet) holds the
  component, the default for the responsible and the default for the deadline, and three
  empty cells where the failure mode, the criticality and the actions should stand.
\<close>

theorem generate_actions_sheet_medium_row:
  "map_sum id (\<lambda>ws. ws ! 9)
     (generate_actions_sheet
        \<lparr>p_reference = ''REF-001'', p_name = ''Station'',
         p_failures =
           [\<lparr>component = ''Pump'', failure_mode = ''Leak'', potential_cause = ''Wear'',
             effect = ''Stop'', gravity = 9, occurrence = 8, detection = 7,
             preventive_actions = Some ''Inspect'', responsible = None, deadline = None\<rparr>,
            \<lparr>component = ''Valve'', failure_mode = ''Stuck'', potential_cause = ''Rust'',
             effect = ''Stop'', gravity = 5, occurrence = 5, detection = 4,
             preventive_actions = Some ''Grease'', responsible = None, deadline = None\<rparr>]\<rparr>)
   = Inr [CStr ''Valve'', CNone, CNone, CNone, CStr A_assigner, CStr A_planifier]"
  by code_simp

lemma generate_actions_sheet_unbound_headers:
  "generate_actions_sheet
        \<lparr>p_reference = ''REF-001'', p_name = ''Station'',
         p_failures =
           [\<lparr>component = ''Valve'', failure_mode = ''Stuck'', potential_cause = ''Rust'',
             effect = ''Stop'', gravity = 5, occurrence = 5, detection = 4,
             preventive_actions = Some ''Grease'', responsible = None, deadline = None\<rparr>]\<rparr>
   = Inl UnboundLocalError"
  by code_simp

subsection \<open>The date parser\<close>

lemma try_formats_first:
  "i < length fs \<Longrightarrow> strptime s (fs ! i) = Some d \<Longrightarrow> \<forall>j<i. strptime s (fs ! j) = None
   \<Longrightarrow> try_formats fs s = Some d"
proof (induction fs arbitrary: i)
  case Nil
  then show ?case by simp
next
  case (Cons fmt fs)
  show ?case
  proof (cases i)
    case 0
    with Cons.prems show ?thesis by simp
  next
    case (Suc k)
    from Cons.prems(3) Suc have "strptime s ((fmt # fs) ! 0) = None" by blast
    then have first: "strptime s fmt = None" by simp
    have "\<forall>j<k. strptime s (fs ! j) = None"
    proof (intro allI impI)
      fix j assume "j < k"
      then have "Suc j < i" using Suc by simp
      with Cons.prems(3) have "strptime s ((fmt # fs) ! Suc j) = None" by blast
      then show "strptime s (fs ! j) = None" by simp
    qed
    moreover have "k < length fs" "strptime s (fs ! k) = Some d"
      using Cons.prems Suc by simp_all
    ultimately have "try_formats fs s = Some d"
      using Cons.IH by blast
    with first show ?thesis by simp
  qed
qed

lemma try_formats_none:
  "\<forall>i<length fs. strptime s (fs ! i) = None \<Longrightarrow> try_formats fs s = None"
proof (induction fs)
  case Nil
  then show ?case by simp
next
  case (Cons fmt fs)
  from Cons.prems have "strptime s ((fmt # fs) ! 0) = None" by blast
  then have first: "strptime s fmt = None" by simp
  have "\<forall>i<length fs. strptime s (fs ! i) = None"
  proof (intro allI impI)
    fix i assume "i < length fs"
    then have "Suc i < length (fmt # fs)" by simp
    with Cons.prems have "strptime s ((fmt # fs) ! Suc i) = None" by blast
    then show "strptime s (fs ! i) = None" by simp
  qed
  with Cons.IH first show ?case by simp
qed

text \<open>
  C5. The date parser tries the formats \<open>%Y-%m-%d\<close>, \<open>%d/%m/%Y\<close>, \<open>%d-%m-%Y\<close>,
  \<open>%Y/%m/%d\<close>, \<open>%d.%m.%Y\<close> in that order on the stripped text and returns the date of
  the first format that reads it, leaving the importer unchanged; when no format reads
  the text, and for any value that is neither a text nor a date, it appends one warning
  and returns today's date; a date is returned as it is. No case raises: the function
  returns a date and an importer for every value.
\<close>

theorem parse_date_formats_in_order:
  "formats =
     [[DY, Lit (CHR ''-''), Dm, Lit (CHR ''-''), Dd],
      [Dd, Lit (CHR ''/''), Dm, Lit (CHR ''/''), DY],
      [Dd, Lit (CHR ''-''), Dm, Lit (CHR ''-''), DY],
      [DY, Lit (CHR ''/''), Dm, Lit (CHR ''/''), Dd],
      [Dd, Lit (CHR ''.''), Dm, Lit (CHR ''.''), DY]]
   \<and> (\<forall>i d. i < length formats \<and> strptime (strip s) (formats ! i) = Some d
             \<and> (\<forall>j<i. strptime (strip s) (formats ! j) = None)
          \<longrightarrow> parse_date today (CStr s) st = (d, st))
   \<and> ((\<forall>i<length formats. strptime (strip s) (formats ! i) = None)
          \<longrightarrow> parse_date today (CStr s) st = (today, add_warning (InvalidDate s) st))
   \<and> ((\<forall>t. v \<noteq> CStr t) \<and> (\<forall>d. v \<noteq> CDate d) \<and> (\<forall>d h m x. v \<noteq> CDateTime d h m x)
          \<longrightarrow> parse_date today v st = (today, add_warning (InvalidDate (py_str v)) st))
   \<and> parse_date today (CDate d0) st = (d0, st)
   \<and> parse_date today (CDateTime d0 h0 m0 x0) st = (d0, st)"
proof (intro conjI allI impI)
  show "formats =
     [[DY, Lit (CHR ''-''), Dm, Lit (CHR ''-''), Dd],
      [Dd, Lit (CHR ''/''), Dm, Lit (CHR ''/''), DY],
      [Dd, Lit (CHR ''-''), Dm, Lit (CHR ''-''), DY],
      [DY, Lit (CHR ''/''), Dm, Lit (CHR ''/''), Dd],
      [Dd, Lit (CHR ''.''), Dm, Lit (CHR ''.''), DY]]"
    by (simp add: formats_def)
next
  fix i d
  assume "i < length formats \<and> strptime (strip s) (formats ! i) = Some d
          \<and> (\<forall>j<i. strptime (strip s) (formats ! j) = None)"
  then have "try_formats formats (strip s) = Some d"
    using try_formats_first by blast
  then show "parse_date today (CStr s) st = (d, st)"
    by (simp add: parse_date_def)
next
  assume "\<forall>i<length formats. strptime (strip s) (formats ! i) = None"
  then have "try_formats formats (strip s) = None"
    by (rule try_formats_none)
  then show "parse_date today (CStr s) st = (today, add_warning (InvalidDate s) st)"
    by (simp add: parse_date_def py_str_def)
next
  assume "(\<forall>t. v \<noteq> CStr t) \<and> (\<forall>d. v \<noteq> CDate d) \<and> (\<forall>d h m x. v \<noteq> CDateTime d h m x)"
  then show "parse_date today v st = (today, add_warning (InvalidDate (py_str v)) st)"
    by (cases v) (simp_all add: parse_date_def)
next
  show "parse_date today (CDate d0) st = (d0, st)"
    by (simp add: parse_date_def)
next
  show "parse_date today (CDateTime d0 h0 m0 x0) st = (d0, st)"
    by (simp add: parse_date_def)
qed

lemma all_less_5:
  assumes "P 0" "P 1" "P 2" "P 3" "P 4"
  shows "\<forall>j<(5::nat). P j"
proof (intro allI impI)
  fix j :: nat
  assume "j < 5"
  then have "j = 0 \<or> j = 1 \<or> j = 2 \<or> j = 3 \<or> j = 4" by arith
  with assms show "P j" by auto
qed

theorem parse_date_formats_in_order_witness:
  "parse_date \<lparr>year = 2026, month = 11, day = 4\<rparr> (CStr ''31/12/2025'') \<lparr>errors = [], warnings = []\<rparr>
     = (\<lparr>year = 2025, month = 12, day = 31\<rparr>, \<lparr>errors = [], warnings = []\<rparr>)
   \<and> parse_date \<lparr>year = 2026, month = 11, day = 4\<rparr> (CStr ''31.12.2025'') \<lparr>errors = [], warnings = []\<rparr>
     = (\<lparr>year = 2025, month = 12, day = 31\<rparr>, \<lparr>errors = [], warnings = []\<rparr>)
   \<and> parse_date \<lparr>year = 2026, month = 11, day = 4\<rparr> (CStr ''not-a-date'') \<lparr>errors = [], warnings = []\<rparr>
     = (\<lparr>year = 2026, month = 11, day = 4\<rparr>, \<lparr>errors = [], warnings = [InvalidDate ''not-a-date'']\<rparr>)
   \<and> parse_date \<lparr>year = 2026, month = 11, day = 4\<rparr> (CNone) \<lparr>errors = [], warnings = []\<rparr>
     = (\<lparr>year = 2026, month = 11, day = 4\<rparr>, \<lparr>errors = [], warnings = [InvalidDate ''None'']\<rparr>)"
proof -
  let ?today = "\<lparr>year = 2026, month = 11, day = 4\<rparr>"
  let ?st = "\<lparr>errors = [], warnings = []\<rparr>"
  let ?d = "\<lparr>year = 2025, month = 12, day = 31\<rparr>"
  have len: "length formats = 5" by (simp add: formats_def)
  have a0: "strptime (strip ''31/12/2025'') (formats ! 0) = None" by code_simp
  have a1: "strptime (strip ''31/12/2025'') (formats ! 1) = Some ?d" by code_simp
  have a: "(1::nat) < length formats \<and> strptime (strip ''31/12/2025'') (formats ! 1) = Some ?d
           \<and> (\<forall>j<1. strptime (strip ''31/12/2025'') (formats ! j) = None)"
    using a0 a1 len by simp
  have c0: "strptime (strip ''31.12.2025'') (formats ! 0) = None" by code_simp
  have c1: "strptime (strip ''31.12.2025'') (formats ! 1) = None" by code_simp
  have c2: "strptime (strip ''31.12.2025'') (formats ! 2) = None" by code_simp
  have c3: "strptime (strip ''31.12.2025'') (formats ! 3) = None" by code_simp
  have c4: "strptime (strip ''31.12.2025'') (formats ! 4) = Some ?d" by code_simp
  have c: "(4::nat) < length formats \<and> strptime (strip ''31.12.2025'') (formats ! 4) = Some ?d
           \<and> (\<forall>j<4. strptime (strip ''31.12.2025'') (formats ! j) = None)"
  proof -
    have "\<forall>j<5. j < 4 \<longrightarrow> strptime (strip ''31.12.2025'') (formats ! j) = None"
      by (rule all_less_5) (use c0 c1 c2 c3 in simp_all)
    then have "\<forall>j<4. strptime (strip ''31.12.2025'') (formats ! j) = None" by simp
    with c4 len show ?thesis by simp
  qed
  have n0: "strptime (strip ''not-a-date'') (formats ! 0) = None" by code_simp
  have n1: "strptime (strip ''not-a-date'') (formats ! 1) = None" by code_simp
  have n2: "strptime (strip ''not-a-date'') (formats ! 2) = None" by code_simp
  have n3: "strptime (strip ''not-a-date'') (formats ! 3) = None" by code_simp
  have n4: "strptime (strip ''not-a-date'') (formats ! 4) = None" by code_simp
  have n: "\<forall>i<length formats. strptime (strip ''not-a-date'') (formats ! i) = None"
    unfolding len by (rule all_less_5) (use n0 n1 n2 n3 n4 in simp_all)
  have v: "(\<forall>t. CNone \<noteq> CStr t) \<and> (\<forall>d. CNone \<noteq> CDate d)
           \<and> (\<forall>d h m x. CNone \<noteq> CDateTime d h m x)"
    by simp
  have w: "add_warning (InvalidDate ''not-a-date'') ?st = \<lparr>errors = [], warnings = [InvalidDate ''not-a-date'']\<rparr>"
    by (simp add: add_warning_def)
  have w2: "add_warning (InvalidDate (py_str (CNone))) ?st = \<lparr>errors = [], warnings = [InvalidDate ''None'']\<rparr>"
    by code_simp
  from parse_date_formats_in_order [of "''31/12/2025''" ?today ?st "CNone"] a
  have 1: "parse_date ?today (CStr ''31/12/2025'') ?st = (?d, ?st)" by blast
  from parse_date_formats_in_order [of "''31.12.2025''" ?today ?st "CNone"] c
  have 3: "parse_date ?today (CStr ''31.12.2025'') ?st = (?d, ?st)" by blast
  from parse_date_formats_in_order [of "''not-a-date''" ?today ?st "CNone"] n v
  have 4: "parse_date ?today (CStr ''not-a-date'') ?st = (?today, add_warning (InvalidDate ''not-a-date'') ?st)"
    and 5: "parse_date ?today (CNone) ?st = (?today, add_warning (InvalidDate (py_str (CNone))) ?st)"
    by blast+
  show ?thesis using 1 3 4 5 w w2 by simp
qed

subsection \<open>Scores of the parsed records\<close>

text \<open>
  The policy of \<open>_parse_score\<close> on every cell whose text \<open>float\<close> does not read as an
  infinity: a text it cannot read and a NaN give 5 and one error; a finite value is
  truncated toward zero, returned as it is when it lies in 1..10, and otherwise limited to
  the nearer bound with one warning.
\<close>

lemma parse_score_policy:
  "(float_of_string (py_str v) = None \<or> float_of_string (py_str v) = Some NaN
      \<longrightarrow> parse_score v f r st = Inr (5, add_error (ScoreInvalid r f (py_str v)) st))
   \<and> (\<forall>q. float_of_string (py_str v) = Some (Finite q) \<and> 1 \<le> trunc q \<and> trunc q \<le> 10
      \<longrightarrow> parse_score v f r st = Inr (trunc q, st))
   \<and> (\<forall>q. float_of_string (py_str v) = Some (Finite q) \<and> trunc q < 1
      \<longrightarrow> parse_score v f r st = Inr (1, add_warning (ScoreLimited r f (trunc q) 1) st))
   \<and> (\<forall>q. float_of_string (py_str v) = Some (Finite q) \<and> 10 < trunc q
      \<longrightarrow> parse_score v f r st = Inr (10, add_warning (ScoreLimited r f (trunc q) 10) st))"
  by (auto simp: parse_score_def int_of_float_def)

lemma read_fields_scores:
  assumes "read_fields ci row r fd st = Inr (fd', st')"
    and "\<forall>f v. is_score_field f \<longrightarrow> map_of fd f = Some v \<longrightarrow> (\<exists>n. v = VInt n \<and> 1 \<le> n \<and> n \<le> 10)"
  shows "\<forall>f v. is_score_field f \<longrightarrow> map_of fd' f = Some v \<longrightarrow> (\<exists>n. v = VInt n \<and> 1 \<le> n \<and> n \<le> 10)"
  using assms
proof (induction ci arbitrary: fd st)
  case Nil
  then show ?case by simp
next
  case (Cons p ci)
  obtain field_name col_idx where p: "p = (field_name, col_idx)" by (cases p)
  show ?case
  proof (cases "col_idx < length row")
    case False
    with Cons.prems p have "read_fields ci row r fd st = Inr (fd', st')" by simp
    with Cons.IH Cons.prems(2) show ?thesis by blast
  next
    case True
    show ?thesis
    proof (cases "is_score_field field_name")
      case is_score: True
      from Cons.prems(1) p True is_score obtain n st1 where
        ps: "parse_score (row ! col_idx) field_name r st = Inr (n, st1)" and
        rest: "read_fields ci row r (AList.update field_name (VInt n) fd) st1 = Inr (fd', st')"
        by (auto simp: Let_def split: sum.splits)
      from ps have "1 \<le> n \<and> n \<le> 10" by (rule parse_score_range)
      with Cons.prems(2)
      have "\<forall>f v. is_score_field f \<longrightarrow> map_of (AList.update field_name (VInt n) fd) f = Some v
              \<longrightarrow> (\<exists>n. v = VInt n \<and> 1 \<le> n \<and> n \<le> 10)"
        by (auto simp: update_conv')
      with Cons.IH rest show ?thesis by blast
    next
      case is_text: False
      let ?fd = "AList.update field_name
                   (VStr (if truthy (row ! col_idx) then clean_text (row ! col_idx) else [])) fd"
      from Cons.prems(1) p True is_text
      have rest: "read_fields ci row r ?fd st = Inr (fd', st')"
        by (simp add: Let_def)
      from Cons.prems(2) is_text
      have "\<forall>f v. is_score_field f \<longrightarrow> map_of ?fd f = Some v
              \<longrightarrow> (\<exists>n. v = VInt n \<and> 1 \<le> n \<and> n \<le> 10)"
        by (auto simp: update_conv')
      with Cons.IH rest show ?thesis by blast
    qed
  qed
qed

lemma data_rows_blank:
  "blank_row row \<Longrightarrow> data_rows ci r (row # rows) fs st = data_rows ci (Suc r) rows fs st"
  by simp

lemma data_rows_summary:
  "\<not> blank_row row \<Longrightarrow> is_summary row \<Longrightarrow> data_rows ci r (row # rows) fs st = Inr (fs, st)"
  by simp

lemma data_rows_raise:
  "\<not> blank_row row \<Longrightarrow> \<not> is_summary row
   \<Longrightarrow> read_fields ci row r [(Forder, VInt (int (length fs)))] st = Inl e
   \<Longrightarrow> data_rows ci r (row # rows) fs st = Inl e"
  by simp

lemma data_rows_keep:
  "\<not> blank_row row \<Longrightarrow> \<not> is_summary row
   \<Longrightarrow> read_fields ci row r [(Forder, VInt (int (length fs)))] st = Inr (fd, st1)
   \<Longrightarrow> has_value fd Fcomponent \<and> has_value fd Ffailure_mode
   \<Longrightarrow> data_rows ci r (row # rows) fs st = data_rows ci (Suc r) rows (fs @ [fd]) st1"
  by simp

lemma data_rows_drop:
  "\<not> blank_row row \<Longrightarrow> \<not> is_summary row
   \<Longrightarrow> read_fields ci row r [(Forder, VInt (int (length fs)))] st = Inr (fd, st1)
   \<Longrightarrow> \<not> (has_value fd Fcomponent \<and> has_value fd Ffailure_mode)
   \<Longrightarrow> data_rows ci r (row # rows) fs st
       = data_rows ci (Suc r) rows fs (add_warning (IncompleteRow r) st1)"
  by (cases "has_value fd Fcomponent") simp_all

lemma data_rows_scores:
  assumes "data_rows ci r rows fs st = Inr (fs', st')"
    and "\<forall>fd \<in> set fs. \<forall>f v. is_score_field f \<longrightarrow> map_of fd f = Some v
           \<longrightarrow> (\<exists>n. v = VInt n \<and> 1 \<le> n \<and> n \<le> 10)"
  shows "\<forall>fd \<in> set fs'. \<forall>f v. is_score_field f \<longrightarrow> map_of fd f = Some v
           \<longrightarrow> (\<exists>n. v = VInt n \<and> 1 \<le> n \<and> n \<le> 10)"
  using assms
proof (induction rows arbitrary: r fs st)
  case Nil
  then show ?case by simp
next
  case (Cons row rows)
  show ?case
  proof (cases "blank_row row")
    case True
    then have "data_rows ci r (row # rows) fs st = data_rows ci (Suc r) rows fs st"
      by (rule data_rows_blank)
    with Cons.prems(1) have "data_rows ci (Suc r) rows fs st = Inr (fs', st')"
      by simp
    with Cons.IH Cons.prems(2) show ?thesis by blast
  next
    case nonblank: False
    show ?thesis
    proof (cases "is_summary row")
      case True
      with nonblank have "data_rows ci r (row # rows) fs st = Inr (fs, st)"
        by (rule data_rows_summary)
      with Cons.prems(1) have "fs' = fs" by simp
      with Cons.prems(2) show ?thesis by simp
    next
      case False
      show ?thesis
      proof (cases "read_fields ci row r [(Forder, VInt (int (length fs)))] st")
        case (Inl e)
        with nonblank False have "data_rows ci r (row # rows) fs st = Inl e"
          by (rule data_rows_raise)
        with Cons.prems(1) show ?thesis by simp
      next
        case (Inr res)
        obtain fd st1 where res: "res = (fd, st1)" by (cases res)
        note rf = Inr [unfolded res]
        have "\<forall>f v. is_score_field f \<longrightarrow> map_of [(Forder, VInt (int (length fs)))] f = Some v
                \<longrightarrow> (\<exists>n. v = VInt n \<and> 1 \<le> n \<and> n \<le> 10)"
          by (auto simp: is_score_field_def)
        with rf have fd_ok: "\<forall>f v. is_score_field f \<longrightarrow> map_of fd f = Some v
                \<longrightarrow> (\<exists>n. v = VInt n \<and> 1 \<le> n \<and> n \<le> 10)"
          by (rule read_fields_scores)
        show ?thesis
        proof (cases "has_value fd Fcomponent \<and> has_value fd Ffailure_mode")
          case True
          with nonblank False rf
          have "data_rows ci r (row # rows) fs st = data_rows ci (Suc r) rows (fs @ [fd]) st1"
            by (rule data_rows_keep)
          with Cons.prems(1)
          have "data_rows ci (Suc r) rows (fs @ [fd]) st1 = Inr (fs', st')"
            by simp
          moreover from Cons.prems(2) fd_ok
          have "\<forall>fd \<in> set (fs @ [fd]). \<forall>f v. is_score_field f \<longrightarrow> map_of fd f = Some v
                  \<longrightarrow> (\<exists>n. v = VInt n \<and> 1 \<le> n \<and> n \<le> 10)"
            by auto
          ultimately show ?thesis using Cons.IH by blast
        next
          case dropped: False
          with nonblank \<open>\<not> is_summary row\<close> rf
          have "data_rows ci r (row # rows) fs st
                  = data_rows ci (Suc r) rows fs (add_warning (IncompleteRow r) st1)"
            by (rule data_rows_drop)
          with Cons.prems(1)
          have "data_rows ci (Suc r) rows fs (add_warning (IncompleteRow r) st1) = Inr (fs', st')"
            by simp
          with Cons.IH Cons.prems(2) show ?thesis by blast
        qed
      qed
    qed
  qed
qed

text \<open>
  C10. In every failure record that the importer's parse returns, each of gravity,
  occurrence and detection that the record holds is an integer from 1 to 10, whatever
  the cells of the worksheet contain.
\<close>

theorem parsed_scores_in_range:
  assumes "parse_excel today now wb st = Inr (res, st')"
    and "fd \<in> set (pr_failures res)"
    and "f = Fgravity \<or> f = Foccurrence \<or> f = Fdetection"
    and "map_of fd f = Some v"
  shows "\<exists>n. v = VInt n \<and> 1 \<le> n \<and> n \<le> 10"
proof -
  from assms(1) obtain st1 fs where
    ef: "extract_failures (select_sheet wb) st1 = Inr (fs, st')" and res: "pr_failures res = fs"
    by (auto simp: parse_excel_def Let_def split: if_splits prod.splits sum.splits)
  have "\<forall>fd \<in> set fs. \<forall>f v. is_score_field f \<longrightarrow> map_of fd f = Some v
           \<longrightarrow> (\<exists>n. v = VInt n \<and> 1 \<le> n \<and> n \<le> 10)"
  proof (cases "find_header 1 (select_sheet wb)")
    case None
    with ef show ?thesis by (auto simp: extract_failures_def)
  next
    case (Some h)
    obtain header_row ci where h: "h = (header_row, ci)" by (cases h)
    show ?thesis
    proof (cases "ci = []")
      case True
      with ef Some h show ?thesis by (auto simp: extract_failures_def)
    next
      case False
      with ef Some h
      have "data_rows ci (header_row + 1) (drop header_row (select_sheet wb)) [] st1 = Inr (fs, st')"
        by (simp add: extract_failures_def)
      then show ?thesis by (rule data_rows_scores) simp
    qed
  qed
  moreover from assms(3) have "is_score_field f" by (simp add: is_score_field_def)
  ultimately show ?thesis using assms(2,4) res by blast
qed

theorem parsed_scores_in_range_witness:
  "parse_excel \<lparr>year = 2026, month = 11, day = 4\<rparr>
     \<lparr>year = 2026, month = 11, day = 4, hour = 9, minute = 5, second = 7\<rparr>
     [(''AMDEC'',
       [[CStr ''Composant'', CStr (''Mode de D'' @ [e_acute] @ ''faillance''),
         CStr (''Gravit'' @ [e_acute] @ '' (G)'')],
        [CStr ''Pump'', CStr ''Leak'', CInt 15]])]
     \<lparr>errors = [], warnings = []\<rparr>
   = Inr (\<lparr>pr_metadata =
            \<lparr>system_name = [], analysis_date = \<lparr>year = 2026, month = 11, day = 4\<rparr>,
             team_members = [], objective = [], client = [],
             reference = ''AMDEC-20261104-0905''\<rparr>,
          pr_failures =
            [[(Forder, VInt 0), (Fcomponent, VStr ''Pump''), (Ffailure_mode, VStr ''Leak''),
              (Fgravity, VInt 10)]],
          pr_summary = \<lparr>total = 1, high = 0, medium = 0, low = 0\<rparr>\<rparr>,
          \<lparr>errors = [], warnings = [ScoreLimited 2 Fgravity 15 10]\<rparr>)
   \<and> (\<exists>n. VInt 10 = VInt n \<and> 1 \<le> n \<and> n \<le> 10)"
proof -
  let ?fd = "[(Forder, VInt 0), (Fcomponent, VStr ''Pump''), (Ffailure_mode, VStr ''Leak''),
              (Fgravity, VInt 10)]"
  let ?res = "\<lparr>pr_metadata =
            \<lparr>system_name = [], analysis_date = \<lparr>year = 2026, month = 11, day = 4\<rparr>,
             team_members = [], objective = [], client = [],
             reference = ''AMDEC-20261104-0905''\<rparr>,
          pr_failures = [?fd],
          pr_summary = \<lparr>total = 1, high = 0, medium = 0, low = 0\<rparr>\<rparr>"
  have h: "parse_excel \<lparr>year = 2026, month = 11, day = 4\<rparr>
     \<lparr>year = 2026, month = 11, day = 4, hour = 9, minute = 5, second = 7\<rparr>
     [(''AMDEC'',
       [[CStr ''Composant'', CStr (''Mode de D'' @ [e_acute] @ ''faillance''),
         CStr (''Gravit'' @ [e_acute] @ '' (G)'')],
        [CStr ''Pump'', CStr ''Leak'', CInt 15]])]
     \<lparr>errors = [], warnings = []\<rparr>
   = Inr (?res, \<lparr>errors = [], warnings = [ScoreLimited 2 Fgravity 15 10]\<rparr>)"
    by code_simp
  have m: "?fd \<in> set (pr_failures ?res)" by simp
  have g: "map_of ?fd Fgravity = Some (VInt 10)" by simp
  have "\<exists>n. VInt 10 = VInt n \<and> 1 \<le> n \<and> n \<le> 10"
    using parsed_scores_in_range [OF h m _ g] by blast
  with h show ?thesis by simp
qed

subsection \<open>References\<close>

lemma ord_chr: "n < 256 \<Longrightarrow> ord (chr n) = n"
  by (simp add: ord_def chr_def)

lemma ord_less_256: "ord c < 256"
  by (simp add: ord_def)

lemma isdigit_chr: "d < 10 \<Longrightarrow> isdigit (chr (48 + d))"
  by (simp add: isdigit_def ord_chr)

lemma nat_digits_isdigit: "list_all isdigit (nat_digits n)"
proof (induction n rule: nat_digits.induct)
  case (1 n)
  show ?case
  proof (cases "n < 10")
    case True
    then show ?thesis by (simp add: nat_digits.simps [of n] isdigit_chr)
  next
    case False
    with 1 have "list_all isdigit (nat_digits (n div 10))" by simp
    moreover have "isdigit (chr (48 + n mod 10))" by (rule isdigit_chr) simp
    ultimately show ?thesis using False by (simp add: nat_digits.simps [of n])
  qed
qed

lemma nat_digits_length: "n < 10 ^ Suc k \<Longrightarrow> length (nat_digits n) \<le> Suc k"
proof (induction k arbitrary: n)
  case 0
  then show ?case by (simp add: nat_digits.simps [of n])
next
  case (Suc k)
  show ?case
  proof (cases "n < 10")
    case True
    then show ?thesis by (simp add: nat_digits.simps [of n])
  next
    case False
    from Suc.prems have "n div 10 < 10 ^ Suc k" by simp
    then have "length (nat_digits (n div 10)) \<le> Suc k" by (rule Suc.IH)
    with False show ?thesis by (simp add: nat_digits.simps [of n])
  qed
qed

lemma zpad_length: "0 < w \<Longrightarrow> n < 10 ^ w \<Longrightarrow> length (zpad w n) = w"
proof -
  assume w: "0 < w" and n: "n < 10 ^ w"
  from w obtain k where k: "w = Suc k" by (cases w) simp_all
  from n k have "length (nat_digits n) \<le> Suc k" using nat_digits_length by simp
  with k show ?thesis by (simp add: zpad_def Let_def)
qed

lemma zpad_isdigit: "list_all isdigit (zpad w n)"
proof -
  have "list_all isdigit (replicate (w - length (nat_digits n)) (CHR ''0''))"
    by (simp add: list_all_iff isdigit_def ord_def)
  with nat_digits_isdigit [of n] show ?thesis
    by (simp add: zpad_def Let_def)
qed

lemma stamp_seconds_shape:
  assumes "valid_now now"
  shows "generated_reference (''AMDEC-'' @ stamp_seconds now)"
proof -
  have ly: "length (zpad 4 (year now)) = 4"
    using assms by (intro zpad_length) (simp_all add: valid_now_def)
  have lmo: "length (zpad 2 (month now)) = 2"
    using assms by (intro zpad_length) (simp_all add: valid_now_def)
  have ld: "length (zpad 2 (day now)) = 2"
    using assms by (intro zpad_length) (simp_all add: valid_now_def)
  have lh: "length (zpad 2 (hour now)) = 2"
    using assms by (intro zpad_length) (simp_all add: valid_now_def)
  have lmi: "length (zpad 2 (minute now)) = 2"
    using assms by (intro zpad_length) (simp_all add: valid_now_def)
  have ls: "length (zpad 2 (second now)) = 2"
    using assms by (intro zpad_length) (simp_all add: valid_now_def)
  define dt where "dt = zpad 4 (year now) @ zpad 2 (month now) @ zpad 2 (day now)"
  define tm where "tm = zpad 2 (hour now) @ zpad 2 (minute now) @ zpad 2 (second now)"
  have shape: "''AMDEC-'' @ stamp_seconds now = ''AMDEC-'' @ dt @ ''-'' @ tm"
    by (simp add: stamp_seconds_def dt_def tm_def)
  have l8: "length dt = 8" using ly lmo ld by (simp add: dt_def)
  have l6: "length tm = 6" using lh lmi ls by (simp add: tm_def)
  have d8: "list_all isdigit dt" using zpad_isdigit by (simp add: dt_def)
  have d6: "list_all isdigit tm" using zpad_isdigit by (simp add: tm_def)
  have t1: "take 8 (drop 6 (''AMDEC-'' @ dt @ ''-'' @ tm)) = dt"
    using l8 by simp
  have t2: "drop 15 (''AMDEC-'' @ dt @ ''-'' @ tm) = tm"
    using l8 by simp
  have t3: "(''AMDEC-'' @ dt @ ''-'' @ tm) ! 14 = CHR ''-''"
    using l8 by (simp add: nth_append)
  have t4: "length (''AMDEC-'' @ dt @ ''-'' @ tm) = 21"
    using l8 l6 by simp
  have t5: "take 6 (''AMDEC-'' @ dt @ ''-'' @ tm) = ''AMDEC-''"
    by simp
  show ?thesis
    unfolding generated_reference_def shape
    using t1 t2 t3 t4 t5 d8 d6 by (simp only: simp_thms)
qed
lemma strip_last_not_space: "strip s \<noteq> [] \<Longrightarrow> \<not> isspace (last (strip s))"
proof -
  assume ne: "strip s \<noteq> []"
  let ?d = "dropWhile isspace (rev (dropWhile isspace s))"
  from ne have d: "?d \<noteq> []" by (simp add: strip_def)
  then have "\<not> isspace (hd ?d)" by (rule hd_dropWhile)
  moreover have "last (strip s) = hd ?d"
    using d by (simp add: strip_def last_rev)
  ultimately show ?thesis by simp
qed

lemma upper_char_not_empty: "upper_char c \<noteq> []"
  by (simp add: upper_char_def Let_def)

lemma upper_empty: "upper s = [] \<longleftrightarrow> s = []"
  by (cases s) (simp_all add: upper_def upper_char_not_empty)

lemma upper_last: "s \<noteq> [] \<Longrightarrow> last (upper s) = last (upper_char (last s))"
proof (induction s rule: rev_induct)
  case Nil
  then show ?case by simp
next
  case (snoc x xs)
  show ?case by (simp add: upper_def upper_char_not_empty)
qed

lemma ord_LF: "ord LF = 10"
  by (simp add: LF_def ord_chr)

lemma upper_char_last_not_LF: "\<not> isspace c \<Longrightarrow> last (upper_char c) \<noteq> LF"
proof -
  assume ns: "\<not> isspace c"
  let ?n = "ord c"
  from ns have c10: "?n \<noteq> 10" by (auto simp: isspace_def Let_def)
  have "ord (last (upper_char c)) \<noteq> 10"
  proof (cases "(97 \<le> ?n \<and> ?n \<le> 122) \<or> (224 \<le> ?n \<and> ?n \<le> 254 \<and> ?n \<noteq> 247)")
    case True
    then have u: "upper_char c = [chr (?n - 32)]" by (simp add: upper_char_def Let_def)
    from True have "?n - 32 < 256" "?n - 32 \<noteq> 10" by auto
    then show ?thesis by (simp add: u ord_chr)
  next
    case False
    show ?thesis
    proof (cases "?n = 223")
      case True
      with False have "upper_char c = ''SS''" by (simp add: upper_char_def Let_def)
      then show ?thesis by (simp add: ord_def)
    next
      case no: False
      with False have "upper_char c = [c]" by (auto simp: upper_char_def Let_def)
      with c10 show ?thesis by simp
    qed
  qed
  with ord_LF show ?thesis by auto
qed

lemma ref_char_not_LF: "ref_char c \<Longrightarrow> c \<noteq> LF"
proof
  assume r: "ref_char c" and "c = LF"
  from r have "ord c \<noteq> 10"
    by (auto simp: ref_char_def in_range_def isdigit_def Let_def) (simp_all add: ord_def)
  with \<open>c = LF\<close> ord_LF show False by simp
qed

lemma ref_match_stripped:
  "ref_match (upper (strip s)) \<longleftrightarrow> upper (strip s) \<noteq> [] \<and> list_all ref_char (upper (strip s))"
proof (cases "upper (strip s) = []")
  case True
  then show ?thesis by (simp add: ref_match_def)
next
  case False
  then have ne: "strip s \<noteq> []" by (simp add: upper_empty)
  then have "\<not> isspace (last (strip s))" by (rule strip_last_not_space)
  then have "last (upper_char (last (strip s))) \<noteq> LF" by (rule upper_char_last_not_LF)
  with ne have "last (upper (strip s)) \<noteq> LF" by (simp add: upper_last)
  with False show ?thesis by (simp add: ref_match_def)
qed

text \<open>
  C8. On the empty reference \<open>validate_reference\<close> generates one that matches
  \<open>^AMDEC-\d{8}-\d{6}$\<close>. On any other it strips and upper-cases the text; it returns
  the result when that is one or more characters of \<open>[A-Z0-9_-]\<close> and 3 to 50 long, and
  raises a \<open>ValidationError\<close> about the reference otherwise. \<open>REF-001\<close> comes back
  unchanged and \<open>ab\<close> is refused.
\<close>

theorem validate_reference_contract:
  "(valid_now now \<longrightarrow>
      validate_reference now [] = Inr (''AMDEC-'' @ stamp_seconds now)
      \<and> generated_reference (''AMDEC-'' @ stamp_seconds now))
   \<and> (r \<noteq> [] \<and> upper (strip r) \<noteq> [] \<and> list_all ref_char (upper (strip r))
        \<and> 3 \<le> length (upper (strip r)) \<and> length (upper (strip r)) \<le> 50
      \<longrightarrow> validate_reference now r = Inr (upper (strip r)))
   \<and> (r \<noteq> [] \<and> \<not> (upper (strip r) \<noteq> [] \<and> list_all ref_char (upper (strip r)))
      \<longrightarrow> validate_reference now r = Inl (ValidationError [InvalidReference (upper (strip r))]))
   \<and> (r \<noteq> [] \<and> upper (strip r) \<noteq> [] \<and> list_all ref_char (upper (strip r))
        \<and> 50 < length (upper (strip r))
      \<longrightarrow> validate_reference now r = Inl (ValidationError [ReferenceTooLong (length (upper (strip r)))]))
   \<and> (r \<noteq> [] \<and> upper (strip r) \<noteq> [] \<and> list_all ref_char (upper (strip r))
        \<and> length (upper (strip r)) < 3
      \<longrightarrow> validate_reference now r = Inl (ValidationError [ReferenceTooShort (length (upper (strip r)))]))
   \<and> validate_reference now ''REF-001'' = Inr ''REF-001''
   \<and> validate_reference now ''ab'' = Inl (ValidationError [ReferenceTooShort 2])"
proof (intro conjI impI)
  assume "valid_now now"
  then show "generated_reference (''AMDEC-'' @ stamp_seconds now)"
    by (rule stamp_seconds_shape)
next
  show "validate_reference now [] = Inr (''AMDEC-'' @ stamp_seconds now)"
    by (simp add: validate_reference_def)
next
  assume "r \<noteq> [] \<and> upper (strip r) \<noteq> [] \<and> list_all ref_char (upper (strip r))
        \<and> 3 \<le> length (upper (strip r)) \<and> length (upper (strip r)) \<le> 50"
  then show "validate_reference now r = Inr (upper (strip r))"
    by (simp add: validate_reference_def Let_def ref_match_stripped)
next
  assume "r \<noteq> [] \<and> \<not> (upper (strip r) \<noteq> [] \<and> list_all ref_char (upper (strip r)))"
  then show "validate_reference now r = Inl (ValidationError [InvalidReference (upper (strip r))])"
    by (simp add: validate_reference_def Let_def ref_match_stripped)
next
  assume "r \<noteq> [] \<and> upper (strip r) \<noteq> [] \<and> list_all ref_char (upper (strip r))
        \<and> 50 < length (upper (strip r))"
  then show "validate_reference now r = Inl (ValidationError [ReferenceTooLong (length (upper (strip r)))])"
    by (simp add: validate_reference_def Let_def ref_match_stripped)
next
  assume "r \<noteq> [] \<and> upper (strip r) \<noteq> [] \<and> list_all ref_char (upper (strip r))
        \<and> length (upper (strip r)) < 3"
  then show "validate_reference now r = Inl (ValidationError [ReferenceTooShort (length (upper (strip r)))])"
    by (simp add: validate_reference_def Let_def ref_match_stripped)
next
  show "validate_reference now ''REF-001'' = Inr ''REF-001''"
    by code_simp
next
  show "validate_reference now ''ab'' = Inl (ValidationError [ReferenceTooShort 2])"
    by code_simp
qed

theorem validate_reference_contract_witness:
  "validate_reference \<lparr>year = 2026, month = 11, day = 4, hour = 9, minute = 5, second = 7\<rparr> []
     = Inr ''AMDEC-20261104-090507''
   \<and> generated_reference ''AMDEC-20261104-090507''
   \<and> validate_reference \<lparr>year = 2026, month = 11, day = 4, hour = 9, minute = 5, second = 7\<rparr> '' ref_1 ''
     = Inr ''REF_1''
   \<and> validate_reference \<lparr>year = 2026, month = 11, day = 4, hour = 9, minute = 5, second = 7\<rparr> ''a b''
     = Inl (ValidationError [InvalidReference ''A B''])
   \<and> validate_reference \<lparr>year = 2026, month = 11, day = 4, hour = 9, minute = 5, second = 7\<rparr> ''x1''
     = Inl (ValidationError [ReferenceTooShort 2])"
proof -
  let ?now = "\<lparr>year = 2026, month = 11, day = 4, hour = 9, minute = 5, second = 7\<rparr>"
  have v: "valid_now ?now" by (simp add: valid_now_def)
  have s: "''AMDEC-'' @ stamp_seconds ?now = ''AMDEC-20261104-090507''" by code_simp
  have u1: "upper (strip '' ref_1 '') = ''REF_1''" by code_simp
  have h1: "'' ref_1 '' \<noteq> [] \<and> upper (strip '' ref_1 '') \<noteq> [] \<and> list_all ref_char (upper (strip '' ref_1 ''))
        \<and> 3 \<le> length (upper (strip '' ref_1 '')) \<and> length (upper (strip '' ref_1 '')) \<le> 50"
    by code_simp
  have u2: "upper (strip ''a b'') = ''A B''" by code_simp
  have h2: "''a b'' \<noteq> [] \<and> \<not> (upper (strip ''a b'') \<noteq> [] \<and> list_all ref_char (upper (strip ''a b'')))"
    by code_simp
  have u3: "length (upper (strip ''x1'')) = 2" by code_simp
  have h3: "''x1'' \<noteq> [] \<and> upper (strip ''x1'') \<noteq> [] \<and> list_all ref_char (upper (strip ''x1''))
        \<and> length (upper (strip ''x1'')) < 3"
    by code_simp
  from validate_reference_contract [of ?now "'' ref_1 ''"] v h1
  have a: "validate_reference ?now [] = Inr (''AMDEC-'' @ stamp_seconds ?now)"
    and b: "generated_reference (''AMDEC-'' @ stamp_seconds ?now)"
    and c: "validate_reference ?now '' ref_1 '' = Inr (upper (strip '' ref_1 ''))"
    by blast+
  from validate_reference_contract [of ?now "''a b''"] h2
  have d: "validate_reference ?now ''a b'' = Inl (ValidationError [InvalidReference (upper (strip ''a b''))])"
    by blast
  from validate_reference_contract [of ?now "''x1''"] h3
  have e: "validate_reference ?now ''x1'' = Inl (ValidationError [ReferenceTooShort (length (upper (strip ''x1'')))])"
    by blast
  show ?thesis using a b c d e by (simp only: s u1 u2 u3 simp_thms)
qed

subsection \<open>Metadata\<close>

lemma metadata_rows_append:
  "metadata_rows today (xs @ ys) acc = metadata_rows today ys (metadata_rows today xs acc)"
  by (induction xs arbitrary: acc) simp_all

lemma set_metadata_same:
  "metadata_field field (fst (set_metadata today field v acc)) = assigned_value today field v"
  by (cases acc; cases field)
     (simp_all add: set_metadata_def metadata_field_def assigned_value_def parse_date_def
        split: option.splits prod.splits)

lemma set_metadata_other:
  "field' \<noteq> field \<Longrightarrow>
   metadata_field field (fst (set_metadata today field' v acc)) = metadata_field field (fst acc)"
  by (cases acc; cases field'; cases field)
     (simp_all add: set_metadata_def metadata_field_def split: prod.splits)

lemma metadata_rows_untouched:
  "\<forall>r \<in> set rows. \<forall>w. row_assignment r \<noteq> Some (field, w) \<Longrightarrow>
   metadata_field field (fst (metadata_rows today rows acc)) = metadata_field field (fst acc)"
proof (induction rows arbitrary: acc)
  case Nil
  then show ?case by simp
next
  case (Cons row rows)
  from Cons.prems have rest: "\<forall>r \<in> set rows. \<forall>w. row_assignment r \<noteq> Some (field, w)"
    and this_row: "\<forall>w. row_assignment row \<noteq> Some (field, w)" by simp_all
  show ?case
  proof (cases "row_assignment row")
    case None
    with Cons.IH [OF rest] show ?thesis by simp
  next
    case (Some a)
    obtain field' v where a: "a = (field', v)" by (cases a)
    with Some this_row have "field' \<noteq> field" by auto
    then have "metadata_field field (fst (set_metadata today field' v acc)) = metadata_field field (fst acc)"
      by (rule set_metadata_other)
    with Cons.IH [OF rest, of "set_metadata today field' v acc"] Some a show ?thesis by simp
  qed
qed

lemma header_name_other:
  "field \<noteq> Msystem_name \<or> system_name md \<noteq> [] \<Longrightarrow>
   metadata_field field (header_name rows md) = metadata_field field md"
proof (induction rows)
  case Nil
  then show ?case by simp
next
  case (Cons row rows)
  then show ?case
    by (cases field) (auto simp: Let_def metadata_field_def)
qed

text \<open>
  C1, as the code has it. The first loop assigns a field each time a row among the first
  fifteen names it, so the last such row decides: \<open>row\<close> is one of the first fifteen
  rows, it assigns the text \<open>v\<close> to \<open>field\<close> (its first cell is true and, in lower case
  and stripped, contains the field's keyword and no keyword listed before it; its second
  cell is true and \<open>v\<close> is its stripped text), and none of the rows after it among the
  first fifteen assigns this field. Then the field of the result holds \<open>v\<close> (for the
  date, what the date parser makes of \<open>v\<close>). For the system name the text must not be
  empty, since the second loop fills an empty name from a title cell.
\<close>

theorem metadata_last_match_wins:
  assumes "ws = pre @ row # post"
    and "length pre < 15"
    and "row_assignment row = Some (field, v)"
    and "\<forall>r \<in> set (take (14 - length pre) post). \<forall>w. row_assignment r \<noteq> Some (field, w)"
    and "field = Msystem_name \<longrightarrow> v \<noteq> []"
  shows "metadata_field field (fst (extract_metadata today now ws st)) = assigned_value today field v"
proof -
  define md0 where "md0 = \<lparr>system_name = [], analysis_date = today, team_members = [],
      objective = [], client = [], reference = ''AMDEC-'' @ stamp_minutes now\<rparr>"
  let ?later = "take (14 - length pre) post"
  from assms(1,2) have t: "take 15 ws = pre @ row # ?later"
    by (simp add: Suc_diff_le numeral_eq_Suc less_Suc_eq_le)
  let ?a1 = "metadata_rows today pre (md0, st)"
  let ?a2 = "set_metadata today field v ?a1"
  let ?a3 = "metadata_rows today ?later ?a2"
  have rows: "metadata_rows today (take 15 ws) (md0, st) = ?a3"
    using assms(3) by (simp add: t metadata_rows_append)
  have "metadata_field field (fst ?a3) = metadata_field field (fst ?a2)"
    using assms(4) by (rule metadata_rows_untouched)
  then have f3: "metadata_field field (fst ?a3) = assigned_value today field v"
    by (simp add: set_metadata_same)
  have cond: "field \<noteq> Msystem_name \<or> system_name (fst ?a3) \<noteq> []"
  proof (cases "field = Msystem_name")
    case True
    with f3 assms(5) show ?thesis
      by (simp add: metadata_field_def assigned_value_def)
  next
    case False
    then show ?thesis by simp
  qed
  have "fst (extract_metadata today now ws st)
          = header_name (take 5 ws) (fst (metadata_rows today (take 15 ws) (md0, st)))"
    unfolding extract_metadata_def md0_def Let_def by (simp add: case_prod_beta)
  then have "fst (extract_metadata today now ws st) = header_name (take 5 ws) (fst ?a3)"
    by (simp only: rows)
  then show ?thesis
    using header_name_other [OF cond] f3 by simp
qed

theorem metadata_last_match_wins_witness:
  "row_assignment [CStr (''Syst'' @ [e_grave] @ ''me''), CStr ''B''] = Some (Msystem_name, ''B'')
   \<and> metadata_field Msystem_name
        (fst (extract_metadata \<lparr>year = 2026, month = 11, day = 4\<rparr>
           \<lparr>year = 2026, month = 11, day = 4, hour = 9, minute = 5, second = 7\<rparr>
           [[CStr (''Syst'' @ [e_grave] @ ''me''), CStr ''A''],
            [CStr (''Syst'' @ [e_grave] @ ''me''), CStr ''B''],
            [CStr ''Client'', CStr ''ACME'']]
           \<lparr>errors = [], warnings = []\<rparr>))
     = MText ''B''"
proof -
  let ?rA = "[CStr (''Syst'' @ [e_grave] @ ''me''), CStr ''A'']"
  let ?rB = "[CStr (''Syst'' @ [e_grave] @ ''me''), CStr ''B'']"
  let ?rC = "[CStr ''Client'', CStr ''ACME'']"
  have a: "row_assignment ?rB = Some (Msystem_name, ''B'')" by code_simp
  have c: "row_assignment ?rC = Some (Mclient, ''ACME'')" by code_simp
  have later: "\<forall>r \<in> set (take (14 - length [?rA]) [?rC]). \<forall>w. row_assignment r \<noteq> Some (Msystem_name, w)"
    using c by simp
  have "metadata_field Msystem_name
        (fst (extract_metadata \<lparr>year = 2026, month = 11, day = 4\<rparr>
           \<lparr>year = 2026, month = 11, day = 4, hour = 9, minute = 5, second = 7\<rparr>
           [?rA, ?rB, ?rC] \<lparr>errors = [], warnings = []\<rparr>))
     = assigned_value \<lparr>year = 2026, month = 11, day = 4\<rparr> Msystem_name ''B''"
    by (rule metadata_last_match_wins [where pre = "[?rA]" and row = ?rB and post = "[?rC]", OF _ _ a later])
       simp_all
  with a show ?thesis by (simp add: assigned_value_def)
qed

text \<open>
  C1, as the claim states it, fails: with two rows naming the system, the claim makes
  the first one (\<open>A\<close>) the value; the code returns the second (\<open>B\<close>).
\<close>

theorem metadata_first_match_counterexample:
  "system_name
     (fst (extract_metadata \<lparr>year = 2026, month = 11, day = 4\<rparr>
        \<lparr>year = 2026, month = 11, day = 4, hour = 9, minute = 5, second = 7\<rparr>
        [[CStr (''Syst'' @ [e_grave] @ ''me''), CStr ''A''],
         [CStr (''Syst'' @ [e_grave] @ ''me''), CStr ''B'']]
        \<lparr>errors = [], warnings = []\<rparr>))
   = ''B''"
  by code_simp

subsection \<open>Aggregation of the score failures\<close>

text \<open>
  When none of the three strict validations ends in an exception other than
  \<open>ValidationError\<close>, \<open>validate_criticality_scores\<close> looks at all three values: it
  raises one \<open>ValidationError\<close> whose messages are the texts of the failures, in the
  order gravity, occurrence, detection, or returns the three scores, with one log entry
  when their product exceeds 500.
\<close>

lemma validate_criticality_scores_aggregates:
  assumes "\<forall>e. validate_score g name_G = Inl e \<longrightarrow> (\<exists>ms. e = ValidationError ms)"
    and "\<forall>e. validate_score oc name_O = Inl e \<longrightarrow> (\<exists>ms. e = ValidationError ms)"
    and "\<forall>e. validate_score d name_D = Inl e \<longrightarrow> (\<exists>ms. e = ValidationError ms)"
  shows "validate_criticality_scores g oc d =
     (let errs = (case validate_score g name_G of Inl (ValidationError ms) \<Rightarrow> [ErrorText ms] | _ \<Rightarrow> [])
               @ (case validate_score oc name_O of Inl (ValidationError ms) \<Rightarrow> [ErrorText ms] | _ \<Rightarrow> [])
               @ (case validate_score d name_D of Inl (ValidationError ms) \<Rightarrow> [ErrorText ms] | _ \<Rightarrow> [])
      in if errs \<noteq> [] then Inl (ValidationError errs)
         else (case (validate_score g name_G, validate_score oc name_O, validate_score d name_D) of
                 (Inr a, Inr b, Inr c) \<Rightarrow>
                   Inr ((a, b, c), if a * b * c > 500 then [VeryHighCriticality (a * b * c) a b c] else [])
               | _ \<Rightarrow> Inl (ValidationError [])))"
proof -
  obtain r1 r2 r3 where r: "validate_score g name_G = r1" "validate_score oc name_O = r2"
    "validate_score d name_D = r3" by blast
  from assms r have c1: "(\<exists>a. r1 = Inr a) \<or> (\<exists>ms. r1 = Inl (ValidationError ms))"
    and c2: "(\<exists>a. r2 = Inr a) \<or> (\<exists>ms. r2 = Inl (ValidationError ms))"
    and c3: "(\<exists>a. r3 = Inr a) \<or> (\<exists>ms. r3 = Inl (ValidationError ms))"
    by (cases r1; cases r2; cases r3; auto)+
  from c1 c2 c3 show ?thesis
    unfolding validate_criticality_scores_def try_score_def r Let_def
    by (elim disjE exE) simp_all
qed

end
